theory Spec2Isabelle
  imports Complex_Main "HOL-Library.Multiset"
begin

section \<open>Numbers, exceptions and tables\<close>

text \<open>
  A numeric cell of a pandas frame is a float: either a number or NaN (a cell that was
  empty or did not parse). Numbers are modelled as exact rationals, so the rounding of
  binary floating point is abstracted away; NaN is kept, since the code tests for it
  (\<open>pd.notna\<close>) and since every comparison with NaN is false.
\<close>

datatype fnum = NaN | Num rat

definition notna :: "fnum \<Rightarrow> bool" where
  "notna x = (x \<noteq> NaN)"

fun num_lt :: "fnum \<Rightarrow> fnum \<Rightarrow> bool" where
  "num_lt (Num a) (Num b) = (a < b)"
| "num_lt _ _ = False"

definition num_gt :: "fnum \<Rightarrow> fnum \<Rightarrow> bool" where
  "num_gt x y = num_lt y x"

fun num_add :: "fnum \<Rightarrow> fnum \<Rightarrow> fnum" where
  "num_add (Num a) (Num b) = Num (a + b)"
| "num_add _ _ = NaN"

fun num_sub :: "fnum \<Rightarrow> fnum \<Rightarrow> fnum" where
  "num_sub (Num a) (Num b) = Num (a - b)"
| "num_sub _ _ = NaN"

fun num_mul :: "fnum \<Rightarrow> fnum \<Rightarrow> fnum" where
  "num_mul (Num a) (Num b) = Num (a * b)"
| "num_mul _ _ = NaN"

text \<open>Division by a divisor already known to be a positive number.\<close>

fun div_pos :: "fnum \<Rightarrow> rat \<Rightarrow> fnum" where
  "div_pos (Num a) b = Num (a / b)"
| "div_pos NaN b = NaN"

text \<open>Python's built-in \<open>sum\<close>: a left fold of \<open>+\<close> from the integer 0.\<close>

definition py_sum :: "fnum list \<Rightarrow> fnum" where
  "py_sum xs = foldl num_add (Num 0) xs"

text \<open>The exceptions the modelled code can raise.\<close>

datatype py_error =
  AttributeError | TypeError | KeyError | IndexError | ZeroDivisionError | ReError

text \<open>
  Division of two Python floats (the values of \<open>Series.to_dict()\<close> are native Python
  floats): a zero divisor raises, NaN propagates.
\<close>

fun py_div :: "fnum \<Rightarrow> fnum \<Rightarrow> py_error + fnum" where
  "py_div x (Num b) =
     (if b = 0 then Inl ZeroDivisionError
      else Inr (case x of Num a \<Rightarrow> Num (a / b) | NaN \<Rightarrow> NaN))"
| "py_div x NaN = Inr NaN"

text \<open>
  A year-columnar table (\<open>year_wise_revenue.csv\<close>, \<open>year_wise_expenditures.csv\<close>):
  \<open>year_cols\<close> lists the years \<open>y\<close> for which the frame has a column labelled \<open>str(y)\<close>;
  \<open>row_cell r y\<close> is the cell of row \<open>r\<close> in that column and is read only for
  \<open>y\<close> in \<open>year_cols\<close>. \<open>row_rank\<close> is the \<open>Rank\<close> cell, \<open>None\<close> when the frame
  has no such column; \<open>row_total\<close> likewise for \<open>10-Year Total\<close>.
\<close>

record year_row =
  row_name :: string
  row_rank :: "fnum option"
  row_total :: "string option"
  row_cell :: "int \<Rightarrow> fnum"

record year_table =
  year_cols :: "int list"
  table_rows :: "year_row list"

record summary_row =
  year :: int
  total_receipts :: fnum
  total_expenditure :: fnum
  fiscal_deficit_in_crores :: fnum
  fiscal_deficit_as_gdp_pct :: fnum
  gdp_nominal_in_crores :: fnum

record line_item =
  li_year :: int
  ministry_name :: string
  grant_or_scheme_name :: string
  amount_in_crores :: fnum
  expenditure_type :: string
  estimate_type :: string

record speech =
  sp_year :: int
  ai_summary :: string

text \<open>
  The state of a \<open>DataProcessor\<close>. Each attribute starts as \<open>None\<close> in \<open>__init__\<close>;
  \<open>load_data\<close> catches every exception of \<open>pd.read_csv\<close>, so after a failed read the
  attribute of that file, and of every file read after it, is still \<open>None\<close>.
\<close>

record tables =
  revenue_data :: "year_table option"
  expenditure_data :: "year_table option"
  budget_summary :: "summary_row list option"
  detailed_expenditures :: "line_item list option"
  speeches :: "speech list option"

text \<open>
  Using an attribute that is still \<open>None\<close> raises: \<open>None[...]\<close> is a TypeError,
  \<open>None.columns\<close> or \<open>None.iterrows()\<close> an AttributeError.
\<close>

definition subscript :: "'a option \<Rightarrow> py_error + 'a" where
  "subscript x = (case x of None \<Rightarrow> Inl TypeError | Some v \<Rightarrow> Inr v)"

definition attribute :: "'a option \<Rightarrow> py_error + 'a" where
  "attribute x = (case x of None \<Rightarrow> Inl AttributeError | Some v \<Rightarrow> Inr v)"

definition bind_err :: "'e + 'a \<Rightarrow> ('a \<Rightarrow> 'e + 'b) \<Rightarrow> 'e + 'b" where
  "bind_err m f = (case m of Inl e \<Rightarrow> Inl e | Inr v \<Rightarrow> f v)"

text \<open>\<open>frame.iloc[0]\<close>: the first row, IndexError on an empty frame.\<close>

definition iloc0 :: "'a list \<Rightarrow> py_error + 'a" where
  "iloc0 xs = (case xs of [] \<Rightarrow> Inl IndexError | x # _ \<Rightarrow> Inr x)"

text \<open>
  \<open>sorted(xs, key=k, reverse=True)\<close>: a stable sort into descending order of the key
  (elements with equal keys keep their order). Python's sort only asks \<open>a < b\<close> of two
  keys. With a NaN key every such test is false and the place CPython gives the element
  depends on the run structure of its merge sort; the model then keeps the element in
  front of the elements after it, which need not be CPython's order, and no theorem
  below depends on the order of a list with a NaN key.
\<close>

fun insert_desc :: "('a \<Rightarrow> fnum) \<Rightarrow> 'a \<Rightarrow> 'a list \<Rightarrow> 'a list" where
  "insert_desc k x [] = [x]"
| "insert_desc k x (y # ys) =
     (if num_lt (k x) (k y) then y # insert_desc k x ys else x # y # ys)"

definition sorted_desc :: "('a \<Rightarrow> fnum) \<Rightarrow> 'a list \<Rightarrow> 'a list" where
  "sorted_desc k xs = foldr (insert_desc k) xs []"

section \<open>Year overview\<close>

record revenue_entry =
  source :: string
  amount :: fnum
  percentage :: fnum

record ministry_entry =
  ministry :: string
  m_amount :: fnum
  rank :: fnum

record scheme_entry =
  s_ministry :: string
  scheme :: string
  s_amount :: fnum
  s_type :: string
  s_estimate_type :: string

record fiscal_health_rec =
  budget_balance :: fnum
  expenditure_to_gdp :: fnum
  revenue_to_gdp :: fnum
  fiscal_deficit_ratio :: fnum
  deficit_trend :: string

record year_overview =
  ov_budget_summary :: summary_row
  revenue_breakdown :: "revenue_entry list"
  top_ministries :: "ministry_entry list"
  key_schemes :: "scheme_entry list"
  speech_summary :: string
  fiscal_health :: "py_error + fiscal_health_rec"

text \<open>The dictionaries with the single key \<open>error\<close> that the public methods return.\<close>

datatype failure =
  NoDataForYear int
| ErrorProcessingYear int py_error
| NoDataForMinistry string int
| ErrorProcessingMinistry py_error
| ErrorCreatingComparison py_error
| ErrorGeneratingInsights py_error

text \<open>\<open>_get_revenue_for_year\<close>, lines 95 to 115.\<close>

definition revenue_percentage :: "fnum \<Rightarrow> fnum \<Rightarrow> fnum" where
  "revenue_percentage total_revenue a =
     (case total_revenue of
        Num tt \<Rightarrow> if tt > 0 then num_mul (div_pos a tt) (Num 100) else Num 0
      | NaN \<Rightarrow> Num 0)"

definition get_revenue_for_year :: "tables \<Rightarrow> int \<Rightarrow> py_error + revenue_entry list" where
  "get_revenue_for_year t y =
     bind_err (attribute (revenue_data t)) (\<lambda>rd.
       if y \<notin> set (year_cols rd) then Inr []
       else
         let revenue_list =
               map (\<lambda>r. \<lparr>source = row_name r, amount = row_cell r y, percentage = Num 0\<rparr>)
                 (filter (\<lambda>r. notna (row_cell r y) \<and> num_gt (row_cell r y) (Num 0))
                    (table_rows rd));
             total_revenue = py_sum (map amount revenue_list);
             with_pct = map (\<lambda>r. r\<lparr>percentage := revenue_percentage total_revenue (amount r)\<rparr>)
                          revenue_list
         in Inr (sorted_desc amount with_pct))"

text \<open>\<open>_get_top_ministries_for_year\<close>, lines 117 to 132; \<open>top_n\<close> is not negative.\<close>

definition get_top_ministries_for_year ::
  "tables \<Rightarrow> int \<Rightarrow> nat \<Rightarrow> py_error + ministry_entry list" where
  "get_top_ministries_for_year t y top_n =
     bind_err (attribute (expenditure_data t)) (\<lambda>ed.
       if y \<notin> set (year_cols ed) then Inr []
       else
         let ministries =
               map (\<lambda>r. \<lparr>ministry = row_name r, m_amount = row_cell r y,
                         rank = (case row_rank r of None \<Rightarrow> Num 0 | Some k \<Rightarrow> k)\<rparr>)
                 (filter (\<lambda>r. notna (row_cell r y) \<and> num_gt (row_cell r y) (Num 0))
                    (table_rows ed))
         in Inr (take top_n (sorted_desc m_amount ministries)))"

text \<open>\<open>_get_key_schemes_for_year\<close>, lines 134 to 148.\<close>

definition get_key_schemes_for_year :: "tables \<Rightarrow> int \<Rightarrow> py_error + scheme_entry list" where
  "get_key_schemes_for_year t y =
     bind_err (subscript (detailed_expenditures t)) (\<lambda>de.
       let schemes =
             map (\<lambda>i. \<lparr>s_ministry = ministry_name i, scheme = grant_or_scheme_name i,
                       s_amount = amount_in_crores i, s_type = expenditure_type i,
                       s_estimate_type = estimate_type i\<rparr>)
               (filter (\<lambda>i. li_year i = y) de)
       in Inr (sorted_desc s_amount schemes))"

text \<open>
  \<open>_get_deficit_trend\<close>, lines 168 to 184. \<open>classify_deficit\<close> is the
  \<open>if\<close>/\<open>elif\<close>/\<open>else\<close> of lines 176 to 181; the bare \<open>except\<close> turns every
  exception into \<open>Unknown\<close>.
\<close>

definition classify_deficit :: "fnum \<Rightarrow> fnum \<Rightarrow> string" where
  "classify_deficit current_deficit previous_deficit =
     (if num_lt current_deficit previous_deficit then ''Improving''
      else if num_gt current_deficit previous_deficit then ''Deteriorating''
      else ''Stable'')"

definition deficit_trend_try :: "tables \<Rightarrow> int \<Rightarrow> py_error + string" where
  "deficit_trend_try t current_year =
     bind_err (subscript (budget_summary t)) (\<lambda>bs.
     bind_err (iloc0 (filter (\<lambda>r. year r = current_year) bs)) (\<lambda>cur.
       let current_deficit = fiscal_deficit_as_gdp_pct cur;
           previous_year_data = filter (\<lambda>r. year r = current_year - 1) bs
       in case previous_year_data of
            prev # _ \<Rightarrow> Inr (classify_deficit current_deficit (fiscal_deficit_as_gdp_pct prev))
          | [] \<Rightarrow> Inr ''No trend data''))"

definition get_deficit_trend :: "tables \<Rightarrow> int \<Rightarrow> string" where
  "get_deficit_trend t current_year =
     (case deficit_trend_try t current_year of Inl e \<Rightarrow> ''Unknown'' | Inr s \<Rightarrow> s)"

text \<open>
  \<open>_calculate_fiscal_health\<close>, lines 150 to 166. The record has every column, so each
  \<open>budget_data.get(c, 0)\<close> finds its key. The two ratios divide Python floats, which
  raises on a zero divisor; the conditional expression evaluates the division only when
  \<open>gdp > 0\<close>.
\<close>

definition ratio_to_gdp :: "fnum \<Rightarrow> fnum \<Rightarrow> py_error + fnum" where
  "ratio_to_gdp x gdp =
     (if num_gt gdp (Num 0)
      then bind_err (py_div x gdp) (\<lambda>q. Inr (num_mul q (Num 100)))
      else Inr (Num 0))"

definition calculate_fiscal_health :: "tables \<Rightarrow> summary_row \<Rightarrow> py_error + fiscal_health_rec" where
  "calculate_fiscal_health t budget_data =
     (let total_receipts' = total_receipts budget_data;
          total_expenditure' = total_expenditure budget_data;
          gdp = gdp_nominal_in_crores budget_data
      in bind_err (ratio_to_gdp total_expenditure' gdp) (\<lambda>e2g.
         bind_err (ratio_to_gdp total_receipts' gdp) (\<lambda>r2g.
           Inr \<lparr>budget_balance = num_sub total_receipts' total_expenditure',
                expenditure_to_gdp = e2g,
                revenue_to_gdp = r2g,
                fiscal_deficit_ratio = fiscal_deficit_as_gdp_pct budget_data,
                deficit_trend = get_deficit_trend t (year budget_data)\<rparr>)))"

text \<open>
  \<open>get_year_overview\<close>, lines 61 to 93. The inner \<open>try\<close> of
  \<open>_calculate_fiscal_health\<close> puts its own error under the key \<open>fiscal_health\<close>;
  every other exception reaches the outer \<open>except\<close>.
\<close>

definition year_overview_try :: "tables \<Rightarrow> int \<Rightarrow> py_error + (failure + year_overview)" where
  "year_overview_try t y =
     bind_err (subscript (budget_summary t)) (\<lambda>bs.
       case filter (\<lambda>r. year r = y) bs of
         [] \<Rightarrow> Inr (Inl (NoDataForYear y))
       | budget_data # _ \<Rightarrow>
           bind_err (get_revenue_for_year t y) (\<lambda>rb.
           bind_err (get_top_ministries_for_year t y 10) (\<lambda>tm.
           bind_err (get_key_schemes_for_year t y) (\<lambda>ks.
           bind_err (subscript (speeches t)) (\<lambda>sp.
             let speech_data = filter (\<lambda>s. sp_year s = y) sp;
                 summary = (case speech_data of
                              [] \<Rightarrow> ''No speech data available''
                            | s # _ \<Rightarrow> ai_summary s)
             in Inr (Inr \<lparr>ov_budget_summary = budget_data,
                          revenue_breakdown = rb,
                          top_ministries = tm,
                          key_schemes = ks,
                          speech_summary = summary,
                          fiscal_health = calculate_fiscal_health t budget_data\<rparr>))))))"

definition get_year_overview :: "tables \<Rightarrow> int \<Rightarrow> failure + year_overview" where
  "get_year_overview t y =
     (case year_overview_try t y of
        Inl e \<Rightarrow> Inl (ErrorProcessingYear y e)
      | Inr r \<Rightarrow> r)"

section \<open>Multi-year comparison\<close>

text \<open>
  A Python dictionary keeps its keys in insertion order; assigning to a key that is
  already there replaces the value and keeps the key's place.
\<close>

fun dict_set :: "('k \<times> 'v) list \<Rightarrow> 'k \<Rightarrow> 'v \<Rightarrow> ('k \<times> 'v) list" where
  "dict_set [] k v = [(k, v)]"
| "dict_set ((k', v') # d) k v =
     (if k' = k then (k, v) # d else (k', v') # dict_set d k v)"

record comparison =
  c_years :: "int list"
  c_budget_summary :: "summary_row list"
  revenue_comparison :: "(string \<times> (int \<times> fnum) list) list"
  expenditure_comparison :: "(string \<times> (int \<times> fnum) list) list"
  ministry_trends :: "(string \<times> (int \<times> fnum) list) list"

text \<open>
  Lines 257 to 262 (and 272 to 277): the amounts of one row in the requested years, in
  the order of the request, leaving out a year without a column or with a NaN cell.
\<close>

definition year_series :: "year_table \<Rightarrow> year_row \<Rightarrow> int list \<Rightarrow> (int \<times> fnum) list" where
  "year_series tab r years =
     map (\<lambda>y. (y, row_cell r y))
       (filter (\<lambda>y. y \<in> set (year_cols tab) \<and> notna (row_cell r y)) years)"

text \<open>
  Lines 253 to 264 (and 268 to 279): for each name in turn, the frame is filtered to
  the rows of that name and the first of them is read.
\<close>

definition compare_rows ::
  "year_table \<Rightarrow> string list \<Rightarrow> int list \<Rightarrow> (string \<times> (int \<times> fnum) list) list" where
  "compare_rows tab names years =
     foldl (\<lambda>d name.
              case filter (\<lambda>r. row_name r = name) (table_rows tab) of
                [] \<Rightarrow> d
              | r # _ \<Rightarrow>
                  (let source_data = year_series tab r years
                   in if source_data = [] then d else dict_set d name source_data))
       [] names"

text \<open>
  \<open>get_comparison_data\<close>, lines 235 to 283. The loop over \<open>years\<close> reads
  \<open>self.budget_summary\<close> in its body, so an empty request never touches it.
\<close>

definition comparison_try :: "tables \<Rightarrow> int list \<Rightarrow> py_error + comparison" where
  "comparison_try t years =
     bind_err (if years = [] then Inr []
               else bind_err (subscript (budget_summary t)) (\<lambda>bs.
                      Inr (concat (map (\<lambda>y. take 1 (filter (\<lambda>r. year r = y) bs)) years))))
       (\<lambda>summaries.
     bind_err (subscript (revenue_data t)) (\<lambda>rd.
     bind_err (attribute (expenditure_data t)) (\<lambda>ed.
       Inr \<lparr>c_years = years,
            c_budget_summary = summaries,
            revenue_comparison = compare_rows rd (map row_name (table_rows rd)) years,
            expenditure_comparison = [],
            ministry_trends = compare_rows ed (map row_name (take 10 (table_rows ed))) years\<rparr>)))"

definition get_comparison_data :: "tables \<Rightarrow> int list \<Rightarrow> failure + comparison" where
  "get_comparison_data t years =
     (case comparison_try t years of
        Inl e \<Rightarrow> Inl (ErrorCreatingComparison e)
      | Inr c \<Rightarrow> Inr c)"

section \<open>Revenue trends\<close>

record growth_entry =
  g_year :: int
  growth_rate :: fnum

record source_trend =
  growth_rates :: "growth_entry list"
  avg_growth :: fnum

definition major_sources :: "string list" where
  "major_sources = [''Corporation Tax'', ''Income Tax'', ''Goods and Services Tax (GST)'']"

text \<open>\<open>np.mean\<close> of a list of floats; NaN for the empty list (numpy only warns).\<close>

definition np_mean :: "fnum list \<Rightarrow> fnum" where
  "np_mean xs =
     (if xs = [] then NaN
      else case py_sum xs of Num s \<Rightarrow> Num (s / of_nat (length xs)) | NaN \<Rightarrow> NaN)"

text \<open>Lines 320 and 321: the guard and the growth rate it protects.\<close>

definition growth_of :: "fnum \<Rightarrow> fnum \<Rightarrow> fnum option" where
  "growth_of current_val previous_val =
     (if notna current_val \<and> notna previous_val \<and> num_gt previous_val (Num 0)
      then (case previous_val of
              Num p \<Rightarrow> Some (num_mul (div_pos (num_sub current_val previous_val) p) (Num 100))
            | NaN \<Rightarrow> None)
      else None)"

text \<open>Lines 312 to 325: the loop over \<open>range(2017, 2026)\<close> for one row.\<close>

definition source_growth_rates :: "year_table \<Rightarrow> year_row \<Rightarrow> growth_entry list" where
  "source_growth_rates rd source_data =
     List.map_filter
       (\<lambda>y. if y \<in> set (year_cols rd) \<and> y - 1 \<in> set (year_cols rd)
            then map_option (\<lambda>g. \<lparr>g_year = y, growth_rate = g\<rparr>)
                   (growth_of (row_cell source_data y) (row_cell source_data (y - 1)))
            else None)
       [2017, 2018, 2019, 2020, 2021, 2022, 2023, 2024, 2025]"

text \<open>
  \<open>_analyze_revenue_trends\<close>, lines 299 to 332. The three names are distinct, so the
  dictionary \<open>trends\<close> gets one key per name found, in this order.
\<close>

definition analyze_revenue_trends :: "tables \<Rightarrow> py_error + (string \<times> source_trend) list" where
  "analyze_revenue_trends t =
     bind_err (subscript (revenue_data t)) (\<lambda>rd.
       Inr (List.map_filter
              (\<lambda>s. case filter (\<lambda>r. row_name r = s) (table_rows rd) of
                     [] \<Rightarrow> None
                   | source_data # _ \<Rightarrow>
                       (let g = source_growth_rates rd source_data
                        in Some (s, \<lparr>growth_rates = g,
                                     avg_growth = (if g = [] then Num 0
                                                   else np_mean (map growth_rate g))\<rparr>)))
              major_sources))"

section \<open>Conversation history of the chatbot\<close>

record message =
  role :: string
  content :: string

text \<open>
  What \<open>generate_content\<close> does is not part of the program: it raises, or it returns a
  response whose \<open>text\<close> is a string or \<open>None\<close>.
\<close>

datatype completion = Raises | Response "string option"

datatype reply = Apology | Answer string

definition no_response_text :: string where
  "no_response_text = ''I apologize, but I couldn't generate a response. Please try again.''"

text \<open>\<open>xs[-n:]\<close> for a positive \<open>n\<close>: the last \<open>n\<close> elements, all of a shorter list.\<close>

definition last_n :: "nat \<Rightarrow> 'a list \<Rightarrow> 'a list" where
  "last_n n xs = drop (length xs - n) xs"

text \<open>
  \<open>get_response\<close>, lines 16 to 84, as a function of the history before the call. Lines
  19 to 50 (search, year overview, context, prompt) do not touch the history; their
  outcome is the argument \<open>prepared\<close>, an exception or the prompt. The result is the
  reply and the history after the call.
\<close>

definition get_response ::
  "message list \<Rightarrow> string \<Rightarrow> py_error + string \<Rightarrow> completion \<Rightarrow> reply \<times> message list" where
  "get_response conversation_history user_query prepared service =
     (case prepared of
        Inl e \<Rightarrow> (Apology, conversation_history)
      | Inr full_prompt \<Rightarrow>
          (let h1 = conversation_history @ [\<lparr>role = ''user'', content = user_query\<rparr>]
           in case service of
                Raises \<Rightarrow> (Apology, h1)
              | Response txt \<Rightarrow>
                  (let ai_response = (case txt of
                                        None \<Rightarrow> no_response_text
                                      | Some s \<Rightarrow> if s = [] then no_response_text else s);
                       h2 = h1 @ [\<lparr>role = ''assistant'', content = ai_response\<rparr>];
                       h3 = (if length h2 > 20 then last_n 20 h2 else h2)
                   in (Answer ai_response, h3))))"

text \<open>A session: calls one after the other, each on the history the last one left.\<close>

fun run_session ::
  "message list \<Rightarrow> (string \<times> (py_error + string) \<times> completion) list \<Rightarrow> message list" where
  "run_session h [] = h"
| "run_session h ((q, p, s) # calls) = run_session (snd (get_response h q p s)) calls"

section \<open>Ministry detail\<close>

text \<open>
  \<open>Series.str.contains(pat, case=False, na=False)\<close> leaves \<open>regex\<close> at its default
  \<open>True\<close>: the pattern is compiled as a regular expression with \<open>re.IGNORECASE\<close> and
  searched for in each name. The regular-expression library is not part of the program;
  it is the argument \<open>str_contains\<close> of the model: for a pattern it raises
  (\<open>re.error\<close>) or gives the test applied to each name.
\<close>

type_synonym matcher = "string \<Rightarrow> py_error + (string \<Rightarrow> bool)"

text \<open>
  A \<open>char\<close> stands for the code point of the same number, so a string of the model is
  a Python string of code points below 256. Among these, matching without regard to
  case identifies exactly a capital letter and its small letter, which is 32 higher:
  \<open>A\<close> to \<open>Z\<close> (65 to 90) and the accented capitals 192 to 222, the multiplication
  sign 215 excepted.
\<close>

definition lower_char :: "char \<Rightarrow> char" where
  "lower_char c =
     (let n = (of_char c :: nat)
      in if (65 \<le> n \<and> n \<le> 90) \<or> (192 \<le> n \<and> n \<le> 222 \<and> n \<noteq> 215)
         then char_of (n + 32) else c)"

text \<open>The characters with a meaning of their own in a regular expression.\<close>

definition regex_specials :: string where
  "regex_specials = [CHR ''.'', CHR ''^'', CHR ''$'', CHR ''*'', CHR ''+'', CHR ''?'',
     CHR ''{'', CHR ''}'', CHR ''['', CHR '']'', CHR 0x5C, CHR ''|'', CHR ''('', CHR '')'']"

definition plain_pattern :: "string \<Rightarrow> bool" where
  "plain_pattern p = list_all (\<lambda>c. c \<notin> set regex_specials) p"

text \<open>Case-insensitive substring test: \<open>p\<close> occurs in \<open>s\<close> up to the case of letters.\<close>

fun ci_prefix :: "string \<Rightarrow> string \<Rightarrow> bool" where
  "ci_prefix [] s = True"
| "ci_prefix (p # ps) [] = False"
| "ci_prefix (p # ps) (c # cs) = (lower_char p = lower_char c \<and> ci_prefix ps cs)"

fun ci_substring :: "string \<Rightarrow> string \<Rightarrow> bool" where
  "ci_substring p [] = (p = [])"
| "ci_substring p (c # cs) = (ci_prefix p (c # cs) \<or> ci_substring p cs)"

text \<open>
  The part of Python's \<open>re\<close> that the statements below need: patterns made of ordinary
  characters, the wildcard \<open>.\<close> (any character but a newline) and parentheses that do
  not nest. A pair of parentheses is a group: it matches what its content matches, so
  the parentheses themselves match nothing of the text; a parenthesis without its
  partner makes \<open>re.compile\<close> raise. \<open>re_search\<close> is the search for a pattern of
  ordinary characters and wildcards.
\<close>

definition item_match :: "char \<Rightarrow> char \<Rightarrow> bool" where
  "item_match pc sc = (if pc = CHR ''.'' then sc \<noteq> CHR 0x0A else lower_char pc = lower_char sc)"

fun match_here :: "string \<Rightarrow> string \<Rightarrow> bool" where
  "match_here [] s = True"
| "match_here (p # ps) [] = False"
| "match_here (p # ps) (c # cs) = (item_match p c \<and> match_here ps cs)"

fun re_search :: "string \<Rightarrow> string \<Rightarrow> bool" where
  "re_search p [] = (p = [])"
| "re_search p (c # cs) = (match_here p (c # cs) \<or> re_search p cs)"

datatype group_shape = Flat | Unbalanced | Nested

fun scan_groups :: "bool \<Rightarrow> string \<Rightarrow> group_shape" where
  "scan_groups inside [] = (if inside then Unbalanced else Flat)"
| "scan_groups inside (c # cs) =
     (if c = CHR ''('' then (if inside then Nested else scan_groups True cs)
      else if c = CHR '')'' then (if inside then scan_groups False cs else Unbalanced)
      else scan_groups inside cs)"

definition in_fragment :: "string \<Rightarrow> bool" where
  "in_fragment p =
     (list_all (\<lambda>c. c = CHR ''.'' \<or> c = CHR ''('' \<or> c = CHR '')'' \<or> c \<notin> set regex_specials) p
      \<and> scan_groups False p \<noteq> Nested)"

text \<open>
  A library that behaves as Python's on the patterns of this part and as \<open>rest\<close>, which
  is arbitrary, on every other pattern. Python's own library is one of these.
\<close>

definition regex_library :: "matcher \<Rightarrow> matcher" where
  "regex_library rest p =
     (if in_fragment p
      then (if scan_groups False p = Flat
            then Inr (re_search (filter (\<lambda>c. c \<noteq> CHR ''('' \<and> c \<noteq> CHR '')'') p))
            else Inl ReError)
      else rest p)"

record md_scheme =
  ms_scheme :: string
  ms_amount :: fnum
  ms_type :: string

record ministry_details =
  md_ministry_name :: string
  current_allocation :: fnum
  md_rank :: fnum
  historical_trend :: "(int \<times> fnum) list"
  major_schemes :: "md_scheme list"
  total_10_year :: string

text \<open>\<open>get_ministry_details\<close>, lines 186 to 233.\<close>

definition ministry_details_try ::
  "matcher \<Rightarrow> tables \<Rightarrow> int \<Rightarrow> string \<Rightarrow> py_error + (failure + ministry_details)" where
  "ministry_details_try str_contains t y name =
     bind_err (subscript (expenditure_data t)) (\<lambda>ed.
     bind_err (str_contains name) (\<lambda>name_matches.
       if y \<notin> set (year_cols ed) then Inl KeyError
       else
         case filter (\<lambda>r. name_matches (row_name r) \<and> notna (row_cell r y)) (table_rows ed) of
           [] \<Rightarrow> Inr (Inl (NoDataForMinistry name y))
         | ministry_data # _ \<Rightarrow>
             (let historical_data =
                    map (\<lambda>yr. (yr, row_cell ministry_data yr))
                      (filter (\<lambda>yr. yr \<in> set (year_cols ed) \<and> notna (row_cell ministry_data yr))
                         [2016, 2017, 2018, 2019, 2020, 2021, 2022, 2023, 2024, 2025])
              in bind_err (subscript (detailed_expenditures t)) (\<lambda>de.
                 bind_err (str_contains name) (\<lambda>scheme_matches.
                   let schemes =
                         map (\<lambda>i. \<lparr>ms_scheme = grant_or_scheme_name i,
                                   ms_amount = amount_in_crores i,
                                   ms_type = expenditure_type i\<rparr>)
                           (filter (\<lambda>i. li_year i = y \<and> scheme_matches (ministry_name i)) de)
                   in Inr (Inr \<lparr>md_ministry_name = row_name ministry_data,
                                current_allocation = row_cell ministry_data y,
                                md_rank = (case row_rank ministry_data of
                                             None \<Rightarrow> Num 0 | Some k \<Rightarrow> k),
                                historical_trend = historical_data,
                                major_schemes = schemes,
                                total_10_year = (case row_total ministry_data of
                                                   None \<Rightarrow> ''N/A'' | Some s \<Rightarrow> s)\<rparr>))))))"

definition get_ministry_details ::
  "matcher \<Rightarrow> tables \<Rightarrow> int \<Rightarrow> string \<Rightarrow> failure + ministry_details" where
  "get_ministry_details str_contains t y name =
     (case ministry_details_try str_contains t y name of
        Inl e \<Rightarrow> Inl (ErrorProcessingMinistry e)
      | Inr r \<Rightarrow> r)"

section \<open>Insights report\<close>

text \<open>
  \<open>Series.sum()\<close> of a numeric column: NaN cells are skipped. The sum is exact; the
  wrap-around of a column of 64-bit integers is not modelled.
\<close>

definition pd_sum :: "fnum list \<Rightarrow> fnum" where
  "pd_sum xs = py_sum (filter notna xs)"

text \<open>
  \<open>row.get(str(y), 0)\<close> on a row of a year table: the cell, or the integer 0 when the
  frame has no such column.
\<close>

definition cell_get :: "year_table \<Rightarrow> year_row \<Rightarrow> int \<Rightarrow> fnum" where
  "cell_get tab r y = (if y \<in> set (year_cols tab) then row_cell r y else Num 0)"

definition year_range :: "int list" where
  "year_range = [2016, 2017, 2018, 2019, 2020, 2021, 2022, 2023, 2024, 2025]"

record expenditure_patterns =
  yearly_totals :: "(int \<times> fnum) list"
  top_growing_ministries :: "(string \<times> fnum) list"
  declining_ministries :: "(string \<times> fnum) list"

text \<open>\<open>_analyze_expenditure_patterns\<close>, lines 334 to 366.\<close>

definition analyze_expenditure_patterns :: "tables \<Rightarrow> py_error + expenditure_patterns" where
  "analyze_expenditure_patterns t =
     bind_err (attribute (expenditure_data t)) (\<lambda>ed.
       let totals = map (\<lambda>y. (y, pd_sum (map (\<lambda>r. row_cell r y) (table_rows ed))))
                      (filter (\<lambda>y. y \<in> set (year_cols ed)) year_range);
           growth = foldl (\<lambda>d ministry.
                             case growth_of (cell_get ed ministry 2025) (cell_get ed ministry 2016) of
                               None \<Rightarrow> d
                             | Some g \<Rightarrow> dict_set d (row_name ministry) g)
                      [] (table_rows ed);
           sorted_growth = sorted_desc snd growth
       in Inr \<lparr>yearly_totals = totals,
               top_growing_ministries = take 10 sorted_growth,
               declining_ministries = last_n 5 sorted_growth\<rparr>)"

text \<open>
  The cells read from a row of \<open>iterrows()\<close> are numpy floats: dividing by zero gives
  an infinity or NaN (and a warning), not an exception. Results of such a division get
  a type with the infinities. (The sign of a zero divisor is not modelled.)
\<close>

datatype npfloat = NpNaN | NpNum rat | NpInf bool

fun np_divide :: "fnum \<Rightarrow> fnum \<Rightarrow> npfloat" where
  "np_divide (Num a) (Num b) =
     (if b \<noteq> 0 then NpNum (a / b) else if a = 0 then NpNaN else NpInf (0 < a))"
| "np_divide _ _ = NpNaN"

fun np_times_100 :: "npfloat \<Rightarrow> npfloat" where
  "np_times_100 (NpNum a) = NpNum (a * 100)"
| "np_times_100 x = x"

fun np_add :: "npfloat \<Rightarrow> npfloat \<Rightarrow> npfloat" where
  "np_add (NpNum a) (NpNum b) = NpNum (a + b)"
| "np_add (NpInf s) (NpNum b) = NpInf s"
| "np_add (NpNum a) (NpInf s) = NpInf s"
| "np_add (NpInf s) (NpInf s') = (if s = s' then NpInf s else NpNaN)"
| "np_add _ _ = NpNaN"

definition np_mean_ext :: "npfloat list \<Rightarrow> npfloat" where
  "np_mean_ext xs =
     (if xs = [] then NpNaN
      else case foldl np_add (NpNum 0) xs of
             NpNum s \<Rightarrow> NpNum (s / of_nat (length xs))
           | other \<Rightarrow> other)"

record fiscal_year_data =
  fy_year :: int
  fy_fiscal_deficit_ratio :: fnum
  fy_expenditure_to_gdp :: npfloat
  fy_revenue_to_gdp :: npfloat

record fiscal_analysis =
  yearly_data :: "fiscal_year_data list"
  average_deficit_ratio :: fnum
  average_expenditure_to_gdp :: npfloat
  trend_analysis :: string

text \<open>\<open>_classify_fiscal_trend\<close>, lines 391 to 404.\<close>

definition classify_fiscal_trend :: "fiscal_year_data list \<Rightarrow> string" where
  "classify_fiscal_trend fiscal_data =
     (let recent_years = last_n 3 (sort_key fy_year fiscal_data);
          early_years = take 3 (sort_key fy_year fiscal_data);
          recent_avg = np_mean (map fy_fiscal_deficit_ratio recent_years);
          early_avg = np_mean (map fy_fiscal_deficit_ratio early_years)
      in if num_lt recent_avg (num_sub early_avg (Num (1 / 2))) then ''Improving fiscal health''
         else if num_gt recent_avg (num_add early_avg (Num (1 / 2)))
              then ''Deteriorating fiscal health''
         else ''Stable fiscal health'')"

text \<open>\<open>_analyze_fiscal_trends\<close>, lines 368 to 389.\<close>

definition analyze_fiscal_trends :: "tables \<Rightarrow> py_error + fiscal_analysis" where
  "analyze_fiscal_trends t =
     bind_err (attribute (budget_summary t)) (\<lambda>bs.
       let fiscal_data =
             map (\<lambda>row. \<lparr>fy_year = year row,
                          fy_fiscal_deficit_ratio = fiscal_deficit_as_gdp_pct row,
                          fy_expenditure_to_gdp =
                            np_times_100 (np_divide (total_expenditure row)
                                                    (gdp_nominal_in_crores row)),
                          fy_revenue_to_gdp =
                            np_times_100 (np_divide (total_receipts row)
                                                    (gdp_nominal_in_crores row))\<rparr>) bs
       in Inr \<lparr>yearly_data = fiscal_data,
               average_deficit_ratio = np_mean (map fy_fiscal_deficit_ratio fiscal_data),
               average_expenditure_to_gdp = np_mean_ext (map fy_expenditure_to_gdp fiscal_data),
               trend_analysis = classify_fiscal_trend fiscal_data\<rparr>)"

record ministry_stats =
  average_allocation :: fnum
  total_allocation :: fnum
  allocation_variance :: fnum
  consistency_score :: fnum

record ministry_performance =
  top_by_total :: "(string \<times> ministry_stats) list"
  most_consistent :: "(string \<times> ministry_stats) list"
  ministry_statistics :: "(string \<times> ministry_stats) list"

text \<open>\<open>np.var\<close>: the mean of the squared distances from the mean.\<close>

definition np_var :: "fnum list \<Rightarrow> fnum" where
  "np_var xs = (let m = np_mean xs in np_mean (map (\<lambda>x. num_mul (num_sub x m) (num_sub x m)) xs))"

text \<open>
  Line 426: \<open>1 / (1 + var / mean) if mean > 0 else 0\<close>, on numpy floats. A variance
  is not negative, so with a positive mean the outer divisor is at least 1.
\<close>

definition consistency :: "fnum \<Rightarrow> fnum \<Rightarrow> fnum" where
  "consistency mean var =
     (case mean of
        Num m \<Rightarrow> if 0 < m
                 then (case num_add (Num 1) (div_pos var m) of
                         Num d \<Rightarrow> Num (1 / d)
                       | NaN \<Rightarrow> NaN)
                 else Num 0
      | NaN \<Rightarrow> Num 0)"

text \<open>\<open>_analyze_ministry_performance\<close>, lines 406 to 437.\<close>

definition analyze_ministry_performance :: "tables \<Rightarrow> py_error + ministry_performance" where
  "analyze_ministry_performance t =
     bind_err (attribute (expenditure_data t)) (\<lambda>ed.
       let stats = foldl (\<lambda>d ministry.
                            let allocations =
                                  map (row_cell ministry)
                                    (filter (\<lambda>y. y \<in> set (year_cols ed) \<and> notna (row_cell ministry y))
                                       year_range)
                            in if allocations = [] then d
                               else dict_set d (row_name ministry)
                                      \<lparr>average_allocation = np_mean allocations,
                                       total_allocation = py_sum allocations,
                                       allocation_variance = np_var allocations,
                                       consistency_score =
                                         consistency (np_mean allocations) (np_var allocations)\<rparr>)
                     [] (table_rows ed)
       in Inr \<lparr>top_by_total = take 10 (sorted_desc (\<lambda>x. total_allocation (snd x)) stats),
               most_consistent = take 10 (sorted_desc (\<lambda>x. consistency_score (snd x)) stats),
               ministry_statistics = stats\<rparr>)"

text \<open>
  The sentences of \<open>_generate_key_findings\<close>, each with the number it prints (the
  formatting of the number is not modelled).
\<close>

datatype finding =
  GstGrowth fnum
| DefenceGrowth fnum
| DeficitProjected fnum
| LargestSpender

text \<open>\<open>frame[str(y)].iloc[0]\<close> on the non-empty frame of the rows of one name.\<close>

definition column_first :: "year_table \<Rightarrow> year_row \<Rightarrow> int \<Rightarrow> py_error + fnum" where
  "column_first tab r y = (if y \<in> set (year_cols tab) then Inr (row_cell r y) else Inl KeyError)"

definition or_zero :: "fnum \<Rightarrow> fnum" where
  "or_zero x = (if notna x then x else Num 0)"

text \<open>
  Lines 444 to 450 (and 453 to 459): the growth of one named row between a reference
  year and 2025, a finding when the reference amount is positive.
\<close>

definition growth_finding ::
  "year_table \<Rightarrow> string \<Rightarrow> int \<Rightarrow> (fnum \<Rightarrow> finding) \<Rightarrow> py_error + finding list" where
  "growth_finding tab name ref_year mk =
     (case filter (\<lambda>r. row_name r = name) (table_rows tab) of
        [] \<Rightarrow> Inr []
      | r # _ \<Rightarrow>
          bind_err (column_first tab r 2025) (\<lambda>v_2025.
          bind_err (column_first tab r ref_year) (\<lambda>v_ref.
            case growth_of (or_zero v_2025) (or_zero v_ref) of
              None \<Rightarrow> Inr []
            | Some g \<Rightarrow> Inr [mk g])))"

text \<open>\<open>_generate_key_findings\<close>, lines 439 to 469.\<close>

definition generate_key_findings :: "tables \<Rightarrow> py_error + finding list" where
  "generate_key_findings t =
     bind_err (subscript (revenue_data t)) (\<lambda>rd.
     bind_err (growth_finding rd ''Goods and Services Tax (GST)'' 2017 GstGrowth) (\<lambda>f1.
     bind_err (subscript (expenditure_data t)) (\<lambda>ed.
     bind_err (growth_finding ed ''Ministry of Defence'' 2016 DefenceGrowth) (\<lambda>f2.
     bind_err (subscript (budget_summary t)) (\<lambda>bs.
     bind_err (iloc0 (filter (\<lambda>r. year r = 2025) bs)) (\<lambda>row_2025.
     bind_err (iloc0 (table_rows ed)) (\<lambda>top_ministry.
       Inr (f1 @ f2 @ [DeficitProjected (fiscal_deficit_as_gdp_pct row_2025), LargestSpender]))))))))"

record insights =
  revenue_trends :: "(string \<times> source_trend) list"
  expenditure_patterns :: expenditure_patterns
  fiscal_analysis :: fiscal_analysis
  ministry_performance :: ministry_performance
  key_findings :: "finding list"

text \<open>
  \<open>get_insights_data\<close>, lines 285 to 297: the five computations are the values of one
  dictionary display inside one \<open>try\<close>; they run in this order and the first exception
  ends the display.
\<close>

definition insights_try :: "tables \<Rightarrow> py_error + insights" where
  "insights_try t =
     bind_err (analyze_revenue_trends t) (\<lambda>rt.
     bind_err (analyze_expenditure_patterns t) (\<lambda>ep.
     bind_err (analyze_fiscal_trends t) (\<lambda>fa.
     bind_err (analyze_ministry_performance t) (\<lambda>mp.
     bind_err (generate_key_findings t) (\<lambda>kf.
       Inr \<lparr>revenue_trends = rt, expenditure_patterns = ep, fiscal_analysis = fa,
            ministry_performance = mp, key_findings = kf\<rparr>)))))"

definition get_insights_data :: "tables \<Rightarrow> failure + insights" where
  "get_insights_data t =
     (case insights_try t of
        Inl e \<Rightarrow> Inl (ErrorGeneratingInsights e)
      | Inr i \<Rightarrow> Inr i)"

section \<open>Reference notions used in the statements\<close>

text \<open>The years that have a record in the budget summary table.\<close>

definition summary_years :: "tables \<Rightarrow> int set" where
  "summary_years t = (case budget_summary t of None \<Rightarrow> {} | Some bs \<Rightarrow> year ` set bs)"

text \<open>
  The amounts the revenue breakdown is about: for each row of the revenue table, in table
  order, the source name and its amount for the year, when that amount is defined and
  strictly positive.
\<close>

definition positive_amount :: "fnum \<Rightarrow> rat option" where
  "positive_amount x = (case x of Num a \<Rightarrow> if a > 0 then Some a else None | NaN \<Rightarrow> None)"

definition included_sources :: "year_table \<Rightarrow> int \<Rightarrow> (string \<times> rat) list" where
  "included_sources rd y =
     (if y \<in> set (year_cols rd)
      then List.map_filter
             (\<lambda>r. map_option (Pair (row_name r)) (positive_amount (row_cell r y)))
             (table_rows rd)
      else [])"

definition included_total :: "year_table \<Rightarrow> int \<Rightarrow> rat" where
  "included_total rd y = sum_list (map snd (included_sources rd y))"

section \<open>Example data\<close>

definition demo_revenue :: year_table where
  "demo_revenue = \<lparr>year_cols = [2024, 2025], table_rows =
     [\<lparr>row_name = ''A'', row_rank = None, row_total = None,
        row_cell = (\<lambda>_. NaN)(2024 := Num 500, 2025 := Num 600)\<rparr>,
      \<lparr>row_name = ''B'', row_rank = None, row_total = None,
        row_cell = (\<lambda>_. NaN)(2024 := Num 0, 2025 := Num 400)\<rparr>,
      \<lparr>row_name = ''C'', row_rank = None, row_total = None,
        row_cell = (\<lambda>_. NaN)\<rparr>]\<rparr>"

definition finance_row :: year_row where
  "finance_row = \<lparr>row_name = ''Ministry of Finance'', row_rank = Some (Num 1),
     row_total = Some ''3000'',
     row_cell = (\<lambda>_. NaN)(2024 := Num 1400, 2025 := Num 1600)\<rparr>"

definition defence_row :: year_row where
  "defence_row = \<lparr>row_name = ''Ministry of Defence'', row_rank = Some (Num 2),
     row_total = Some ''1500'',
     row_cell = (\<lambda>_. NaN)(2016 := Num 400, 2024 := Num 500, 2025 := Num 600)\<rparr>"

definition health_row :: year_row where
  "health_row = \<lparr>row_name = ''Ministry of Health'', row_rank = Some (Num 3),
     row_total = Some ''90'',
     row_cell = (\<lambda>_. NaN)(2024 := Num 90)\<rparr>"

definition demo_expenditure :: year_table where
  "demo_expenditure =
     \<lparr>year_cols = [2016, 2024, 2025],
      table_rows = [finance_row, defence_row, health_row]\<rparr>"

definition demo_summary :: "summary_row list" where
  "demo_summary =
     [\<lparr>year = 2024, total_receipts = Num 500, total_expenditure = Num 2000,
        fiscal_deficit_in_crores = Num 1500, fiscal_deficit_as_gdp_pct = Num 5,
        gdp_nominal_in_crores = Num 30000\<rparr>,
      \<lparr>year = 2025, total_receipts = Num 1000, total_expenditure = Num 2200,
        fiscal_deficit_in_crores = Num 1200, fiscal_deficit_as_gdp_pct = Num (9 / 2),
        gdp_nominal_in_crores = Num 32000\<rparr>]"

text \<open>The same two years with the two deficit ratios exchanged.\<close>

definition demo_summary_swapped :: "summary_row list" where
  "demo_summary_swapped =
     [\<lparr>year = 2024, total_receipts = Num 500, total_expenditure = Num 2000,
        fiscal_deficit_in_crores = Num 1500, fiscal_deficit_as_gdp_pct = Num (9 / 2),
        gdp_nominal_in_crores = Num 30000\<rparr>,
      \<lparr>year = 2025, total_receipts = Num 1000, total_expenditure = Num 2200,
        fiscal_deficit_in_crores = Num 1200, fiscal_deficit_as_gdp_pct = Num 5,
        gdp_nominal_in_crores = Num 32000\<rparr>]"

definition demo_items :: "line_item list" where
  "demo_items =
     [\<lparr>li_year = 2025, ministry_name = ''Ministry of Defence'',
        grant_or_scheme_name = ''Capital Outlay'', amount_in_crores = Num 300,
        expenditure_type = ''Capital'', estimate_type = ''BE''\<rparr>]"

definition demo_speeches :: "speech list" where
  "demo_speeches = [\<lparr>sp_year = 2025, ai_summary = ''Growth and consolidation''\<rparr>]"

definition demo_tables :: tables where
  "demo_tables = \<lparr>revenue_data = Some demo_revenue, expenditure_data = Some demo_expenditure,
     budget_summary = Some demo_summary, detailed_expenditures = Some demo_items,
     speeches = Some demo_speeches\<rparr>"

definition demo_tables_swapped :: tables where
  "demo_tables_swapped = demo_tables\<lparr>budget_summary := Some demo_summary_swapped\<rparr>"

definition zero_gdp_row :: summary_row where
  "zero_gdp_row = \<lparr>year = 2020, total_receipts = Num 100, total_expenditure = Num 150,
     fiscal_deficit_in_crores = Num 50, fiscal_deficit_as_gdp_pct = Num 5,
     gdp_nominal_in_crores = Num 0\<rparr>"

definition no_tables :: tables where
  "no_tables = \<lparr>revenue_data = None, expenditure_data = None, budget_summary = None,
     detailed_expenditures = None, speeches = None\<rparr>"

definition gst_row :: year_row where
  "gst_row = \<lparr>row_name = ''Goods and Services Tax (GST)'', row_rank = None, row_total = None,
     row_cell = (\<lambda>_. NaN)(2017 := Num 100, 2018 := Num 150, 2019 := Num 0, 2020 := Num 30)\<rparr>"

definition trend_revenue :: year_table where
  "trend_revenue = \<lparr>year_cols = [2016, 2017, 2018, 2019, 2020], table_rows = [gst_row]\<rparr>"

definition trend_tables :: tables where
  "trend_tables = no_tables\<lparr>revenue_data := Some trend_revenue\<rparr>"

text \<open>
  The state after \<open>budget_summary.csv\<close> could not be read: the two files read before
  it are loaded (with plain numeric cells), the summary table and every table read after
  it are still \<open>None\<close>.
\<close>

definition summary_missing_tables :: tables where
  "summary_missing_tables = \<lparr>revenue_data = Some trend_revenue,
     expenditure_data = Some demo_expenditure, budget_summary = None,
     detailed_expenditures = None, speeches = None\<rparr>"

text \<open>The two years of the summary table, the later one with an empty deficit ratio.\<close>

definition demo_summary_gap :: "summary_row list" where
  "demo_summary_gap =
     [\<lparr>year = 2024, total_receipts = Num 500, total_expenditure = Num 2000,
        fiscal_deficit_in_crores = Num 1500, fiscal_deficit_as_gdp_pct = Num 5,
        gdp_nominal_in_crores = Num 30000\<rparr>,
      \<lparr>year = 2025, total_receipts = Num 1000, total_expenditure = Num 2200,
        fiscal_deficit_in_crores = Num 1200, fiscal_deficit_as_gdp_pct = NaN,
        gdp_nominal_in_crores = Num 32000\<rparr>]"

definition demo_tables_gap :: tables where
  "demo_tables_gap = demo_tables\<lparr>budget_summary := Some demo_summary_gap\<rparr>"

text \<open>An expenditure table with a ministry whose name has parentheses.\<close>

definition ayush_row :: year_row where
  "ayush_row = \<lparr>row_name = ''Ministry of Ayush (AYUSH)'', row_rank = Some (Num 2),
     row_total = Some ''5800'',
     row_cell = (\<lambda>_. NaN)(2024 := Num 2800, 2025 := Num 3000)\<rparr>"

definition ayush_expenditure :: year_table where
  "ayush_expenditure = \<lparr>year_cols = [2024, 2025], table_rows = [finance_row, ayush_row]\<rparr>"

definition ayush_tables :: tables where
  "ayush_tables = demo_tables\<lparr>expenditure_data := Some ayush_expenditure\<rparr>"

text \<open>Ten answered questions, then one on which the completion service fails.\<close>

definition ten_exchanges_then_failure :: "(string \<times> (py_error + string) \<times> completion) list" where
  "ten_exchanges_then_failure =
     replicate 10 (''q'', Inr ''prompt'', Response (Some ''a'')) @ [(''q'', Inr ''prompt'', Raises)]"

section \<open>Basic facts\<close>

lemma bind_err_simps [simp]:
  "bind_err (Inl e) f = Inl e"
  "bind_err (Inr v) f = f v"
  by (simp_all add: bind_err_def)

lemma mset_insert_desc: "mset (insert_desc k x ys) = add_mset x (mset ys)"
  by (induction ys) auto

lemma mset_sorted_desc: "mset (sorted_desc k xs) = mset xs"
  by (induction xs) (auto simp: sorted_desc_def mset_insert_desc)

lemma set_sorted_desc: "set (sorted_desc k xs) = set xs"
  using mset_sorted_desc [of k xs] by (metis set_mset_mset)

lemma num_add_commute_right: "num_add (num_add a x) y = num_add (num_add a y) x"
  by (cases a; cases x; cases y) auto

lemma py_sum_mset: "mset xs = mset ys \<Longrightarrow> py_sum xs = py_sum ys"
proof -
  assume m: "mset xs = mset ys"
  have "fold (\<lambda>x a. num_add a x) xs = fold (\<lambda>x a. num_add a x) ys"
    by (rule fold_multiset_equiv [OF _ m]) (auto simp: fun_eq_iff num_add_commute_right)
  then show ?thesis by (simp add: py_sum_def foldl_conv_fold)
qed

lemma foldl_num_add_Num: "foldl num_add (Num s) (map Num xs) = Num (s + sum_list xs)"
  by (induction xs arbitrary: s) (auto simp: add.assoc)

lemma py_sum_Num: "py_sum (map Num xs) = Num (sum_list xs)"
  by (simp add: py_sum_def foldl_num_add_Num)

lemma sum_list_pos_rat:
  "(\<And>a. a \<in> set xs \<Longrightarrow> (0::rat) < a) \<Longrightarrow> xs \<noteq> [] \<Longrightarrow> 0 < sum_list xs"
proof (induction xs)
  case Nil
  then show ?case by simp
next
  case (Cons x xs)
  have "0 \<le> sum_list xs"
    by (rule sum_list_nonneg) (use Cons.prems(1) in \<open>auto intro: less_imp_le\<close>)
  moreover have "0 < x" using Cons.prems(1) by simp
  ultimately show ?case by simp
qed

lemma sum_list_share: "sum_list (map (\<lambda>a. a / c * d) xs) = sum_list xs / c * (d::rat)"
  by (induction xs) (auto simp: add_divide_distrib distrib_right)

lemma filter_hd_year: "filter (\<lambda>r. year r = y) bs = cur # rest \<Longrightarrow> year cur = y"
  by (metis (mono_tags, lifting) filter_eq_ConsD)

lemmas demo_defs =
  demo_tables_def demo_revenue_def demo_expenditure_def demo_summary_def demo_items_def
  finance_row_def defence_row_def health_row_def
  demo_speeches_def demo_tables_swapped_def demo_summary_swapped_def

section \<open>Fiscal health\<close>

lemma ratio_to_gdp_total: "\<exists>q. ratio_to_gdp x gdp = Inr q"
  by (cases gdp; cases x) (auto simp: ratio_to_gdp_def num_gt_def)

lemma calculate_fiscal_health_total: "\<exists>fh. calculate_fiscal_health t b = Inr fh"
proof -
  obtain q1 where q1: "ratio_to_gdp (total_expenditure b) (gdp_nominal_in_crores b) = Inr q1"
    using ratio_to_gdp_total by blast
  obtain q2 where q2: "ratio_to_gdp (total_receipts b) (gdp_nominal_in_crores b) = Inr q2"
    using ratio_to_gdp_total by blast
  show ?thesis by (simp add: calculate_fiscal_health_def Let_def q1 q2)
qed

lemma calculate_fiscal_health_trend:
  "calculate_fiscal_health t b = Inr fh \<Longrightarrow> deficit_trend fh = get_deficit_trend t (year b)"
  by (auto simp: calculate_fiscal_health_def Let_def bind_err_def split: sum.splits)

text \<open>
  C10. A summary record whose nominal GDP is zero or negative gets both GDP ratios as 0:
  \<open>_calculate_fiscal_health\<close> returns its dictionary, not an error, although dividing by
  that GDP would raise.
\<close>

theorem fiscal_health_gdp_guard:
  assumes "gdp_nominal_in_crores b = Num g" and "g \<le> 0"
  shows "\<exists>fh. calculate_fiscal_health t b = Inr fh
           \<and> expenditure_to_gdp fh = Num 0 \<and> revenue_to_gdp fh = Num 0"
  using assms by (simp add: calculate_fiscal_health_def Let_def ratio_to_gdp_def num_gt_def)

theorem fiscal_health_gdp_guard_witness:
  "gdp_nominal_in_crores zero_gdp_row = Num 0 \<and> (0::rat) \<le> 0 \<and>
   (\<exists>fh. calculate_fiscal_health no_tables zero_gdp_row = Inr fh
      \<and> expenditure_to_gdp fh = Num 0 \<and> revenue_to_gdp fh = Num 0) \<and>
   py_div (total_expenditure zero_gdp_row) (gdp_nominal_in_crores zero_gdp_row)
     = Inl ZeroDivisionError"
  using fiscal_health_gdp_guard [of zero_gdp_row 0 no_tables]
  by (simp add: zero_gdp_row_def)

section \<open>Year overview\<close>

lemma year_overview_present:
  assumes "revenue_data t = Some rd" "expenditure_data t = Some ed"
    and "budget_summary t = Some bs" "detailed_expenditures t = Some de"
    and "speeches t = Some sp"
    and "filter (\<lambda>r. year r = y) bs = cur # rest"
  shows "\<exists>rb tm ks. get_revenue_for_year t y = Inr rb \<and>
     get_year_overview t y = Inr \<lparr>ov_budget_summary = cur, revenue_breakdown = rb,
        top_ministries = tm, key_schemes = ks,
        speech_summary = (case filter (\<lambda>s. sp_year s = y) sp of
                            [] \<Rightarrow> ''No speech data available'' | s # _ \<Rightarrow> ai_summary s),
        fiscal_health = calculate_fiscal_health t cur\<rparr>"
  using assms
  by (simp add: get_year_overview_def year_overview_try_def subscript_def attribute_def
      get_revenue_for_year_def get_top_ministries_for_year_def get_key_schemes_for_year_def
      Let_def)

text \<open>
  C3. A year with no record in the budget summary table gets the result
  \<open>{"error": "No data available for year y"}\<close> and nothing else: the result is the
  error alone, without any of the six fields of an overview. (When the summary table
  itself was never loaded the result is an error as well, the one of the \<open>except\<close>
  clause.)
\<close>

theorem year_overview_not_found:
  assumes "y \<notin> summary_years t"
  shows "\<exists>f. get_year_overview t y = Inl f \<and>
           (budget_summary t \<noteq> None \<longrightarrow> f = NoDataForYear y)"
proof (cases "budget_summary t")
  case None
  then show ?thesis
    by (simp add: get_year_overview_def year_overview_try_def subscript_def)
next
  case (Some bs)
  then have "filter (\<lambda>r. year r = y) bs = []"
    using assms by (auto simp: filter_empty_conv summary_years_def)
  then show ?thesis
    using Some by (simp add: get_year_overview_def year_overview_try_def subscript_def)
qed

theorem year_overview_not_found_witness:
  "(2019::int) \<notin> summary_years demo_tables \<and>
   get_year_overview demo_tables 2019 = Inl (NoDataForYear 2019)"
proof -
  have h: "(2019::int) \<notin> summary_years demo_tables"
    by (simp add: summary_years_def demo_defs)
  have "budget_summary demo_tables \<noteq> None" by (simp add: demo_defs)
  with year_overview_not_found [OF h] h show ?thesis by auto
qed

section \<open>Revenue breakdown\<close>

lemma positive_cells:
  "map (\<lambda>r. \<lparr>source = row_name r, amount = row_cell r y, percentage = f (row_cell r y)\<rparr>)
     (filter (\<lambda>r. notna (row_cell r y) \<and> num_gt (row_cell r y) (Num 0)) rs)
   = map (\<lambda>a. \<lparr>source = fst a, amount = Num (snd a), percentage = f (Num (snd a))\<rparr>)
       (List.map_filter (\<lambda>r. map_option (Pair (row_name r)) (positive_amount (row_cell r y))) rs)"
proof (induction rs)
  case Nil
  then show ?case by simp
next
  case (Cons r rs)
  then show ?case
    by (cases "row_cell r y") (auto simp: positive_amount_def notna_def num_gt_def)
qed

lemma included_sources_pos: "(s, a) \<in> set (included_sources rd y) \<Longrightarrow> 0 < a"
  by (auto simp: included_sources_def map_filter_def positive_amount_def
      split: fnum.splits if_splits)

lemma included_total_pos: "included_sources rd y \<noteq> [] \<Longrightarrow> 0 < included_total rd y"
  unfolding included_total_def
  by (rule sum_list_pos_rat) (auto dest: included_sources_pos)

lemma revenue_for_year_eq:
  assumes "revenue_data t = Some rd"
  shows "get_revenue_for_year t y =
     Inr (sorted_desc amount
            (map (\<lambda>a. \<lparr>source = fst a, amount = Num (snd a),
                       percentage = revenue_percentage (Num (included_total rd y)) (Num (snd a))\<rparr>)
               (included_sources rd y)))"
proof (cases "y \<in> set (year_cols rd)")
  case False
  then show ?thesis using assms
    by (simp add: get_revenue_for_year_def attribute_def sorted_desc_def included_sources_def)
next
  case True
  let ?P = "\<lambda>r. notna (row_cell r y) \<and> num_gt (row_cell r y) (Num 0)"
  have "map amount (map (\<lambda>r. \<lparr>source = row_name r, amount = row_cell r y, percentage = Num 0\<rparr>)
                 (filter ?P (table_rows rd)))
      = map Num (map snd (included_sources rd y))"
    using True by (simp add: positive_cells [where f = "\<lambda>_. Num 0"] included_sources_def o_def)
  then have tot: "py_sum (map (\<lambda>r. row_cell r y) (filter ?P (table_rows rd)))
      = Num (included_total rd y)"
    using py_sum_Num [of "map snd (included_sources rd y)"]
    by (simp add: included_total_def o_def)
  show ?thesis using assms True
    by (simp add: get_revenue_for_year_def attribute_def Let_def o_def tot positive_cells
        included_sources_def)
qed

lemma revenue_percentage_share:
  "revenue_percentage (Num tot) (Num a) = Num (if 0 < tot then a / tot * 100 else 0)"
  by (simp add: revenue_percentage_def)

text \<open>
  C2. For a year with a summary record (all tables loaded), the overview's revenue
  breakdown lists exactly the sources with a defined, strictly positive amount for the
  year; the percentage of each entry is its amount divided by the sum of these amounts,
  times 100 (and 0 if that sum is 0); the percentages add up to 100 when there is such a
  source and to 0 when there is none. Arithmetic is exact here, so no rounding error
  appears in the sum.
\<close>

theorem revenue_breakdown_shares:
  assumes "revenue_data t = Some rd" "expenditure_data t = Some ed"
    and "budget_summary t = Some bs" "detailed_expenditures t = Some de"
    and "speeches t = Some sp"
    and "y \<in> year ` set bs"
  shows "\<exists>ov. get_year_overview t y = Inr ov \<and>
     mset (map (\<lambda>e. (source e, amount e)) (revenue_breakdown ov))
       = mset (map (\<lambda>p. (fst p, Num (snd p))) (included_sources rd y)) \<and>
     (\<forall>e \<in> set (revenue_breakdown ov). \<exists>a. amount e = Num a \<and>
         percentage e = Num (if included_total rd y = 0 then 0
                             else a / included_total rd y * 100)) \<and>
     py_sum (map percentage (revenue_breakdown ov))
       = Num (if included_sources rd y = [] then 0 else 100)"
proof -
  obtain cur rest where cur: "filter (\<lambda>r. year r = y) bs = cur # rest"
    using assms(6) by (cases "filter (\<lambda>r. year r = y) bs") (auto simp: filter_empty_conv)
  let ?tot = "included_total rd y"
  let ?ents = "map (\<lambda>a. \<lparr>source = fst a, amount = Num (snd a),
                       percentage = revenue_percentage (Num ?tot) (Num (snd a))\<rparr>)
               (included_sources rd y)"
  let ?rb = "sorted_desc amount ?ents"
  have rb: "get_revenue_for_year t y = Inr ?rb"
    by (rule revenue_for_year_eq [OF assms(1)])
  have "\<exists>ov. get_year_overview t y = Inr ov \<and> revenue_breakdown ov = ?rb"
    using cur assms(1-5) rb
    by (simp add: get_year_overview_def year_overview_try_def subscript_def attribute_def
        get_top_ministries_for_year_def get_key_schemes_for_year_def Let_def)
  then obtain ov where ov: "get_year_overview t y = Inr ov" and rbov: "revenue_breakdown ov = ?rb"
    by blast
  have nonneg: "0 \<le> ?tot"
    using included_total_pos [of rd y] by (cases "included_sources rd y = []")
      (auto simp: included_total_def intro: less_imp_le)
  have pct: "revenue_percentage (Num ?tot) (Num a) = Num (if ?tot = 0 then 0 else a / ?tot * 100)"
    for a
    using nonneg by (auto simp: revenue_percentage_share)
  have m1: "mset (map (\<lambda>e. (source e, amount e)) ?rb)
       = mset (map (\<lambda>p. (fst p, Num (snd p))) (included_sources rd y))"
  proof -
    have "mset (map (\<lambda>e. (source e, amount e)) ?rb)
        = image_mset (\<lambda>e. (source e, amount e)) (mset ?rb)"
      by simp
    also have "\<dots> = image_mset (\<lambda>e. (source e, amount e)) (mset ?ents)"
      by (simp only: mset_sorted_desc)
    also have "\<dots> = mset (map (\<lambda>e. (source e, amount e)) ?ents)"
      by (simp only: mset_map)
    also have "map (\<lambda>e. (source e, amount e)) ?ents
        = map (\<lambda>p. (fst p, Num (snd p))) (included_sources rd y)"
      by (simp add: o_def)
    finally show ?thesis .
  qed
  have m2: "\<forall>e \<in> set ?rb. \<exists>a. amount e = Num a \<and>
         percentage e = Num (if ?tot = 0 then 0 else a / ?tot * 100)"
    by (auto simp: set_sorted_desc pct)
  have m3: "py_sum (map percentage ?rb) = Num (if included_sources rd y = [] then 0 else 100)"
  proof -
    have "mset (map percentage ?rb) = mset (map percentage ?ents)"
      by (simp only: mset_map mset_sorted_desc)
    then have "py_sum (map percentage ?rb) = py_sum (map percentage ?ents)"
      by (rule py_sum_mset)
    also have "map percentage ?ents
        = map Num (map (\<lambda>a. if ?tot = 0 then 0 else a / ?tot * 100)
                     (map snd (included_sources rd y)))"
      by (simp add: o_def pct)
    also have "py_sum \<dots> = Num (sum_list (map (\<lambda>a. if ?tot = 0 then 0 else a / ?tot * 100)
                                 (map snd (included_sources rd y))))"
      by (rule py_sum_Num)
    also have "\<dots> = Num (if included_sources rd y = [] then 0 else 100)"
    proof (cases "included_sources rd y = []")
      case True
      then show ?thesis by simp
    next
      case False
      then have pos: "0 < ?tot" by (rule included_total_pos)
      then have "sum_list (map (\<lambda>a. if ?tot = 0 then 0 else a / ?tot * 100)
                                 (map snd (included_sources rd y)))
          = sum_list (map (\<lambda>a. a / ?tot * 100) (map snd (included_sources rd y)))"
        by simp
      also have "\<dots> = ?tot / ?tot * 100"
        unfolding sum_list_share by (simp add: included_total_def)
      also have "\<dots> = 100" using pos by simp
      finally show ?thesis using False by simp
    qed
    finally show ?thesis .
  qed
  show ?thesis using ov rbov m1 m2 m3 by (intro exI [of _ ov]) (simp only: simp_thms)
qed

lemma demo_included_sources: "included_sources demo_revenue 2025 = [(''A'', 600), (''B'', 400)]"
  by (simp add: included_sources_def demo_defs positive_amount_def)

theorem revenue_breakdown_shares_witness:
  "revenue_data demo_tables = Some demo_revenue \<and>
   expenditure_data demo_tables = Some demo_expenditure \<and>
   budget_summary demo_tables = Some demo_summary \<and>
   detailed_expenditures demo_tables = Some demo_items \<and>
   speeches demo_tables = Some demo_speeches \<and>
   (2025::int) \<in> year ` set demo_summary \<and>
   (\<exists>ov. get_year_overview demo_tables 2025 = Inr ov \<and>
      mset (map (\<lambda>e. (source e, amount e)) (revenue_breakdown ov))
        = {#(''A'', Num 600), (''B'', Num 400)#} \<and>
      (\<forall>e \<in> set (revenue_breakdown ov). \<exists>a. amount e = Num a \<and>
          percentage e = Num (a / 1000 * 100)) \<and>
      py_sum (map percentage (revenue_breakdown ov)) = Num 100)"
proof -
  have h1: "revenue_data demo_tables = Some demo_revenue" by (simp add: demo_tables_def)
  have h2: "expenditure_data demo_tables = Some demo_expenditure" by (simp add: demo_tables_def)
  have h3: "budget_summary demo_tables = Some demo_summary" by (simp add: demo_tables_def)
  have h4: "detailed_expenditures demo_tables = Some demo_items" by (simp add: demo_tables_def)
  have h5: "speeches demo_tables = Some demo_speeches" by (simp add: demo_tables_def)
  have h6: "(2025::int) \<in> year ` set demo_summary" by (simp add: demo_summary_def)
  have tot: "included_total demo_revenue 2025 = 1000"
    by (simp add: included_total_def demo_included_sources)
  show ?thesis
    using revenue_breakdown_shares [OF h1 h2 h3 h4 h5 h6] h1 h2 h3 h4 h5 h6
    by (simp add: demo_included_sources tot)
qed

text \<open>
  The example of the specification: amounts 600 and 400 for 2025 give 60 and 40 per
  cent, the larger amount first.
\<close>

lemma revenue_breakdown_example:
  "get_revenue_for_year demo_tables 2025 =
     Inr [\<lparr>source = ''A'', amount = Num 600, percentage = Num 60\<rparr>,
          \<lparr>source = ''B'', amount = Num 400, percentage = Num 40\<rparr>]"
proof -
  have "revenue_data demo_tables = Some demo_revenue" by (simp add: demo_tables_def)
  from revenue_for_year_eq [OF this, of 2025] show ?thesis
    by (simp add: demo_included_sources included_total_def revenue_percentage_def
        sorted_desc_def)
qed

section \<open>Deficit trend\<close>

lemma get_deficit_trend_present:
  assumes "budget_summary t = Some bs" and "filter (\<lambda>r. year r = y) bs = cur # rest"
  shows "get_deficit_trend t y =
     (case filter (\<lambda>r. year r = y - 1) bs of
        [] \<Rightarrow> ''No trend data''
      | prev # _ \<Rightarrow> classify_deficit (fiscal_deficit_as_gdp_pct cur) (fiscal_deficit_as_gdp_pct prev))"
  using assms
  by (simp add: get_deficit_trend_def deficit_trend_try_def subscript_def iloc0_def Let_def
      split: list.splits)

lemma classify_deficit_not_unknown: "classify_deficit c p \<noteq> ''Unknown''"
  by (simp add: classify_deficit_def)

lemma deficit_trend_try_raises_iff:
  "(\<exists>e. deficit_trend_try t y = Inl e) \<longleftrightarrow> budget_summary t = None \<or> y \<notin> summary_years t"
proof (cases "budget_summary t")
  case None
  then show ?thesis by (simp add: deficit_trend_try_def subscript_def)
next
  case (Some bs)
  show ?thesis
  proof (cases "filter (\<lambda>r. year r = y) bs")
    case Nil
    then have "y \<notin> year ` set bs" by (auto simp: filter_empty_conv)
    with Nil Some show ?thesis
      by (simp add: deficit_trend_try_def subscript_def iloc0_def summary_years_def)
  next
    case (Cons cur rest)
    then have "cur \<in> set (filter (\<lambda>r. year r = y) bs)" by simp
    then have "y \<in> year ` set bs" by auto
    with Cons Some show ?thesis
      by (simp add: deficit_trend_try_def subscript_def iloc0_def summary_years_def Let_def
          split: list.splits)
  qed
qed

lemma deficit_trend_try_value:
  "deficit_trend_try t y = Inr s \<Longrightarrow> s \<noteq> ''Unknown''"
  by (auto simp: deficit_trend_try_def bind_err_def subscript_def iloc0_def Let_def
      classify_deficit_def split: option.splits list.splits if_splits)

lemma get_deficit_trend_unknown_iff:
  "get_deficit_trend t y = ''Unknown'' \<longleftrightarrow> (\<exists>e. deficit_trend_try t y = Inl e)"
  by (cases "deficit_trend_try t y")
     (auto simp: get_deficit_trend_def dest: deficit_trend_try_value)

lemma deficit_trend_try_present:
  assumes "budget_summary t = Some bs" and "filter (\<lambda>r. year r = y) bs = cur # rest"
  shows "deficit_trend_try t y = Inr (get_deficit_trend t y)"
  using assms
  by (simp add: get_deficit_trend_def deficit_trend_try_def subscript_def iloc0_def Let_def
      split: list.splits)

text \<open>
  C4. For a year \<open>y\<close> with a summary record (all tables loaded), the overview carries a
  fiscal-health record whose deficit trend compares the deficit ratio of \<open>y\<close> with that
  of \<open>y - 1\<close> (the first record of each year): no record for \<open>y - 1\<close> gives
  \<open>No trend data\<close>, a strictly lower ratio \<open>Improving\<close>, a strictly higher one
  \<open>Deteriorating\<close>, an equal one \<open>Stable\<close>. Whatever the two cells hold, one of these
  is the answer: when either ratio is an empty cell neither comparison succeeds and the
  answer is \<open>Stable\<close> as well. The trend is \<open>Unknown\<close> exactly when its computation
  raises, and it raises exactly when the summary table is not loaded or has no record of
  the year; so for a year with a record it does not raise and the trend is never
  \<open>Unknown\<close>.
\<close>

theorem year_overview_deficit_trend:
  "(revenue_data t = Some rd \<and> expenditure_data t = Some ed \<and> budget_summary t = Some bs \<and>
    detailed_expenditures t = Some de \<and> speeches t = Some sp \<and>
    filter (\<lambda>r. year r = y) bs = cur # rest
    \<longrightarrow> (\<exists>ov fh. get_year_overview t y = Inr ov \<and> fiscal_health ov = Inr fh \<and>
          deficit_trend_try t y = Inr (deficit_trend fh) \<and>
          deficit_trend fh \<noteq> ''Unknown'' \<and>
          (case filter (\<lambda>r. year r = y - 1) bs of
             [] \<Rightarrow> deficit_trend fh = ''No trend data''
           | prev # _ \<Rightarrow>
               (\<forall>c p. fiscal_deficit_as_gdp_pct cur = Num c \<and>
                      fiscal_deficit_as_gdp_pct prev = Num p \<longrightarrow>
                  (c < p \<longrightarrow> deficit_trend fh = ''Improving'') \<and>
                  (c > p \<longrightarrow> deficit_trend fh = ''Deteriorating'') \<and>
                  (c = p \<longrightarrow> deficit_trend fh = ''Stable'')) \<and>
               (fiscal_deficit_as_gdp_pct cur = NaN \<or> fiscal_deficit_as_gdp_pct prev = NaN
                  \<longrightarrow> deficit_trend fh = ''Stable'')))) \<and>
   (get_deficit_trend t y = ''Unknown'' \<longleftrightarrow> (\<exists>e. deficit_trend_try t y = Inl e)) \<and>
   ((\<exists>e. deficit_trend_try t y = Inl e) \<longleftrightarrow> budget_summary t = None \<or> y \<notin> summary_years t)"
proof (intro conjI impI)
  assume a: "revenue_data t = Some rd \<and> expenditure_data t = Some ed \<and>
    budget_summary t = Some bs \<and> detailed_expenditures t = Some de \<and> speeches t = Some sp \<and>
    filter (\<lambda>r. year r = y) bs = cur # rest"
  then have l1: "revenue_data t = Some rd" and l2: "expenditure_data t = Some ed"
    and l3: "budget_summary t = Some bs" and l4: "detailed_expenditures t = Some de"
    and l5: "speeches t = Some sp" and l6: "filter (\<lambda>r. year r = y) bs = cur # rest"
    by simp_all
  obtain fh where fh: "calculate_fiscal_health t cur = Inr fh"
    using calculate_fiscal_health_total by blast
  have yc: "year cur = y" using l6 by (rule filter_hd_year)
  have tr: "deficit_trend fh = get_deficit_trend t y"
    using calculate_fiscal_health_trend [OF fh] yc by simp
  obtain rb tm ks where ov: "get_year_overview t y = Inr \<lparr>ov_budget_summary = cur,
        revenue_breakdown = rb, top_ministries = tm, key_schemes = ks,
        speech_summary = (case filter (\<lambda>s. sp_year s = y) sp of
                            [] \<Rightarrow> ''No speech data available'' | s # _ \<Rightarrow> ai_summary s),
        fiscal_health = calculate_fiscal_health t cur\<rparr>"
    using year_overview_present [OF l1 l2 l3 l4 l5 l6] by blast
  have noerr: "deficit_trend_try t y = Inr (get_deficit_trend t y)"
    using l3 l6 by (rule deficit_trend_try_present)
  have nu: "get_deficit_trend t y \<noteq> ''Unknown''"
    using noerr by (rule deficit_trend_try_value)
  have cls: "get_deficit_trend t y =
     (case filter (\<lambda>r. year r = y - 1) bs of
        [] \<Rightarrow> ''No trend data''
      | prev # _ \<Rightarrow> classify_deficit (fiscal_deficit_as_gdp_pct cur)
                       (fiscal_deficit_as_gdp_pct prev))"
    using l3 l6 by (rule get_deficit_trend_present)
  have dec: "case filter (\<lambda>r. year r = y - 1) bs of
             [] \<Rightarrow> get_deficit_trend t y = ''No trend data''
           | prev # _ \<Rightarrow>
               (\<forall>c p. fiscal_deficit_as_gdp_pct cur = Num c \<and>
                      fiscal_deficit_as_gdp_pct prev = Num p \<longrightarrow>
                  (c < p \<longrightarrow> get_deficit_trend t y = ''Improving'') \<and>
                  (c > p \<longrightarrow> get_deficit_trend t y = ''Deteriorating'') \<and>
                  (c = p \<longrightarrow> get_deficit_trend t y = ''Stable'')) \<and>
               (fiscal_deficit_as_gdp_pct cur = NaN \<or> fiscal_deficit_as_gdp_pct prev = NaN
                  \<longrightarrow> get_deficit_trend t y = ''Stable'')"
    unfolding cls
    by (auto simp: classify_deficit_def num_gt_def split: list.splits)
  show "\<exists>ov fh. get_year_overview t y = Inr ov \<and> fiscal_health ov = Inr fh \<and>
          deficit_trend_try t y = Inr (deficit_trend fh) \<and>
          deficit_trend fh \<noteq> ''Unknown'' \<and>
          (case filter (\<lambda>r. year r = y - 1) bs of
             [] \<Rightarrow> deficit_trend fh = ''No trend data''
           | prev # _ \<Rightarrow>
               (\<forall>c p. fiscal_deficit_as_gdp_pct cur = Num c \<and>
                      fiscal_deficit_as_gdp_pct prev = Num p \<longrightarrow>
                  (c < p \<longrightarrow> deficit_trend fh = ''Improving'') \<and>
                  (c > p \<longrightarrow> deficit_trend fh = ''Deteriorating'') \<and>
                  (c = p \<longrightarrow> deficit_trend fh = ''Stable'')) \<and>
               (fiscal_deficit_as_gdp_pct cur = NaN \<or> fiscal_deficit_as_gdp_pct prev = NaN
                  \<longrightarrow> deficit_trend fh = ''Stable''))"
    apply (rule exI [of _ "\<lparr>ov_budget_summary = cur,
        revenue_breakdown = rb, top_ministries = tm, key_schemes = ks,
        speech_summary = (case filter (\<lambda>s. sp_year s = y) sp of
                            [] \<Rightarrow> ''No speech data available'' | s # _ \<Rightarrow> ai_summary s),
        fiscal_health = calculate_fiscal_health t cur\<rparr>"])
    apply (rule exI [of _ fh])
    using ov fh noerr nu dec unfolding tr apply simp
    done
next
  show "get_deficit_trend t y = ''Unknown'' \<longleftrightarrow> (\<exists>e. deficit_trend_try t y = Inl e)"
    by (rule get_deficit_trend_unknown_iff)
next
  show "(\<exists>e. deficit_trend_try t y = Inl e) \<longleftrightarrow> budget_summary t = None \<or> y \<notin> summary_years t"
    by (rule deficit_trend_try_raises_iff)
qed


text \<open>
  The example of the specification: deficit ratios 5.0 for 2024 and 4.5 for 2025 make
  the overview of 2025 report \<open>Improving\<close>. With the ratio of 2025 empty the overview
  reports \<open>Stable\<close>. For 2019, which has no record, and for tables that were never
  loaded, the trend computation raises and answers \<open>Unknown\<close>.
\<close>

theorem year_overview_deficit_trend_witness:
  "filter (\<lambda>r. year r = 2025) demo_summary = [demo_summary ! 1] \<and>
   filter (\<lambda>r. year r = 2025 - 1) demo_summary = [demo_summary ! 0] \<and>
   fiscal_deficit_as_gdp_pct (demo_summary ! 1) = Num (9 / 2) \<and>
   fiscal_deficit_as_gdp_pct (demo_summary ! 0) = Num 5 \<and>
   (\<exists>ov fh. get_year_overview demo_tables 2025 = Inr ov \<and> fiscal_health ov = Inr fh \<and>
      deficit_trend fh = ''Improving'') \<and>
   filter (\<lambda>r. year r = 2025) demo_summary_gap = [demo_summary_gap ! 1] \<and>
   filter (\<lambda>r. year r = 2025 - 1) demo_summary_gap = [demo_summary_gap ! 0] \<and>
   fiscal_deficit_as_gdp_pct (demo_summary_gap ! 1) = NaN \<and>
   fiscal_deficit_as_gdp_pct (demo_summary_gap ! 0) = Num 5 \<and>
   (\<exists>ov fh. get_year_overview demo_tables_gap 2025 = Inr ov \<and> fiscal_health ov = Inr fh \<and>
      deficit_trend fh = ''Stable'') \<and>
   (2019::int) \<notin> summary_years demo_tables \<and>
   get_deficit_trend demo_tables 2019 = ''Unknown'' \<and>
   budget_summary no_tables = None \<and>
   get_deficit_trend no_tables 2025 = ''Unknown''"
proof -
  have h1: "revenue_data demo_tables = Some demo_revenue" by (simp add: demo_tables_def)
  have h2: "expenditure_data demo_tables = Some demo_expenditure" by (simp add: demo_tables_def)
  have h3: "budget_summary demo_tables = Some demo_summary" by (simp add: demo_tables_def)
  have h4: "detailed_expenditures demo_tables = Some demo_items" by (simp add: demo_tables_def)
  have h5: "speeches demo_tables = Some demo_speeches" by (simp add: demo_tables_def)
  have h6: "filter (\<lambda>r. year r = 2025) demo_summary = demo_summary ! 1 # []"
    by (simp add: demo_summary_def)
  have p1: "filter (\<lambda>r. year r = 2025 - 1) demo_summary = [demo_summary ! 0]"
    by (simp add: demo_summary_def)
  have c1: "fiscal_deficit_as_gdp_pct (demo_summary ! 1) = Num (9 / 2)"
    by (simp add: demo_summary_def)
  have c2: "fiscal_deficit_as_gdp_pct (demo_summary ! 0) = Num 5"
    by (simp add: demo_summary_def)
  have lt: "(9 / 2 :: rat) < 5" by simp
  from year_overview_deficit_trend [of demo_tables demo_revenue demo_expenditure demo_summary
      demo_items demo_speeches 2025 "demo_summary ! 1" "[]"] h1 h2 h3 h4 h5 h6
  obtain ov fh where a0: "get_year_overview demo_tables 2025 = Inr ov"
      "fiscal_health ov = Inr fh"
      "case filter (\<lambda>r. year r = 2025 - 1) demo_summary of
             [] \<Rightarrow> deficit_trend fh = ''No trend data''
           | prev # _ \<Rightarrow>
               (\<forall>c p. fiscal_deficit_as_gdp_pct (demo_summary ! 1) = Num c \<and>
                      fiscal_deficit_as_gdp_pct prev = Num p \<longrightarrow>
                  (c < p \<longrightarrow> deficit_trend fh = ''Improving'') \<and>
                  (c > p \<longrightarrow> deficit_trend fh = ''Deteriorating'') \<and>
                  (c = p \<longrightarrow> deficit_trend fh = ''Stable'')) \<and>
               (fiscal_deficit_as_gdp_pct (demo_summary ! 1) = NaN \<or>
                fiscal_deficit_as_gdp_pct prev = NaN
                  \<longrightarrow> deficit_trend fh = ''Stable'')"
    by auto
  have "(\<forall>c p. fiscal_deficit_as_gdp_pct (demo_summary ! 1) = Num c \<and>
                      fiscal_deficit_as_gdp_pct (demo_summary ! 0) = Num p \<longrightarrow>
                  (c < p \<longrightarrow> deficit_trend fh = ''Improving'') \<and>
                  (c > p \<longrightarrow> deficit_trend fh = ''Deteriorating'') \<and>
                  (c = p \<longrightarrow> deficit_trend fh = ''Stable''))"
    using a0(3) unfolding p1 list.case by (rule conjunct1)
  then have "deficit_trend fh = ''Improving''"
    using c1 c2 lt by meson
  with a0 have a: "\<exists>ov fh. get_year_overview demo_tables 2025 = Inr ov \<and>
      fiscal_health ov = Inr fh \<and> deficit_trend fh = ''Improving''"
    by blast
  have g1: "revenue_data demo_tables_gap = Some demo_revenue"
    by (simp add: demo_tables_gap_def demo_tables_def)
  have g2: "expenditure_data demo_tables_gap = Some demo_expenditure"
    by (simp add: demo_tables_gap_def demo_tables_def)
  have g3: "budget_summary demo_tables_gap = Some demo_summary_gap"
    by (simp add: demo_tables_gap_def)
  have g4: "detailed_expenditures demo_tables_gap = Some demo_items"
    by (simp add: demo_tables_gap_def demo_tables_def)
  have g5: "speeches demo_tables_gap = Some demo_speeches"
    by (simp add: demo_tables_gap_def demo_tables_def)
  have g6: "filter (\<lambda>r. year r = 2025) demo_summary_gap = demo_summary_gap ! 1 # []"
    by (simp add: demo_summary_gap_def)
  have q1: "filter (\<lambda>r. year r = 2025 - 1) demo_summary_gap = [demo_summary_gap ! 0]"
    by (simp add: demo_summary_gap_def)
  have d1: "fiscal_deficit_as_gdp_pct (demo_summary_gap ! 1) = NaN"
    by (simp add: demo_summary_gap_def)
  have d2: "fiscal_deficit_as_gdp_pct (demo_summary_gap ! 0) = Num 5"
    by (simp add: demo_summary_gap_def)
  from year_overview_deficit_trend [of demo_tables_gap demo_revenue demo_expenditure
      demo_summary_gap demo_items demo_speeches 2025 "demo_summary_gap ! 1" "[]"]
    g1 g2 g3 g4 g5 g6
  obtain ov' fh' where b0: "get_year_overview demo_tables_gap 2025 = Inr ov'"
      "fiscal_health ov' = Inr fh'"
      "case filter (\<lambda>r. year r = 2025 - 1) demo_summary_gap of
             [] \<Rightarrow> deficit_trend fh' = ''No trend data''
           | prev # _ \<Rightarrow>
               (\<forall>c p. fiscal_deficit_as_gdp_pct (demo_summary_gap ! 1) = Num c \<and>
                      fiscal_deficit_as_gdp_pct prev = Num p \<longrightarrow>
                  (c < p \<longrightarrow> deficit_trend fh' = ''Improving'') \<and>
                  (c > p \<longrightarrow> deficit_trend fh' = ''Deteriorating'') \<and>
                  (c = p \<longrightarrow> deficit_trend fh' = ''Stable'')) \<and>
               (fiscal_deficit_as_gdp_pct (demo_summary_gap ! 1) = NaN \<or>
                fiscal_deficit_as_gdp_pct prev = NaN
                  \<longrightarrow> deficit_trend fh' = ''Stable'')"
    by auto
  have "fiscal_deficit_as_gdp_pct (demo_summary_gap ! 1) = NaN \<or>
                fiscal_deficit_as_gdp_pct (demo_summary_gap ! 0) = NaN
                  \<longrightarrow> deficit_trend fh' = ''Stable''"
    using b0(3) unfolding q1 list.case by (rule conjunct2)
  then have "deficit_trend fh' = ''Stable''"
    using d1 by simp
  with b0 have b: "\<exists>ov fh. get_year_overview demo_tables_gap 2025 = Inr ov \<and>
      fiscal_health ov = Inr fh \<and> deficit_trend fh = ''Stable''"
    by blast
  have n1: "(2019::int) \<notin> summary_years demo_tables"
    by (simp add: summary_years_def demo_tables_def demo_summary_def)
  have u1: "get_deficit_trend demo_tables 2019 = ''Unknown''"
    using year_overview_deficit_trend [of demo_tables demo_revenue demo_expenditure
      demo_summary demo_items demo_speeches 2019 "demo_summary ! 1" "[]"] n1
    by simp
  have n2: "budget_summary no_tables = None" by (simp add: no_tables_def)
  have u2: "get_deficit_trend no_tables 2025 = ''Unknown''"
    using year_overview_deficit_trend [of no_tables demo_revenue demo_expenditure
      demo_summary demo_items demo_speeches 2025 "demo_summary ! 1" "[]"] n2
    by simp
  have h6': "filter (\<lambda>r. year r = 2025) demo_summary = [demo_summary ! 1]" using h6 by simp
  have g6': "filter (\<lambda>r. year r = 2025) demo_summary_gap = [demo_summary_gap ! 1]"
    using g6 by simp
  from h6' p1 c1 c2 a g6' q1 d1 d2 b n1 u1 n2 u2 show ?thesis by blast
qed

text \<open>
  C5. Anti-symmetry: take two summary tables that give a year and its predecessor the
  same two deficit ratios with the roles exchanged. If the trend of the year is
  \<open>Improving\<close> in the first table, it is \<open>Deteriorating\<close> in the second.
\<close>

theorem deficit_trend_antisymmetric:
  assumes "budget_summary t = Some bs" and "budget_summary t' = Some bs'"
    and "filter (\<lambda>r. year r = y) bs = cur # r1"
    and "filter (\<lambda>r. year r = y - 1) bs = prev # r2"
    and "filter (\<lambda>r. year r = y) bs' = cur' # r3"
    and "filter (\<lambda>r. year r = y - 1) bs' = prev' # r4"
    and "fiscal_deficit_as_gdp_pct cur' = fiscal_deficit_as_gdp_pct prev"
    and "fiscal_deficit_as_gdp_pct prev' = fiscal_deficit_as_gdp_pct cur"
    and "get_deficit_trend t y = ''Improving''"
  shows "get_deficit_trend t' y = ''Deteriorating''"
proof -
  have a: "classify_deficit (fiscal_deficit_as_gdp_pct cur) (fiscal_deficit_as_gdp_pct prev)
      = ''Improving''"
    using get_deficit_trend_present [OF assms(1) assms(3)] assms(4) assms(9) by simp
  have lt: "num_lt (fiscal_deficit_as_gdp_pct cur) (fiscal_deficit_as_gdp_pct prev)"
    using a by (auto simp: classify_deficit_def split: if_splits)
  have nlt: "\<not> num_lt (fiscal_deficit_as_gdp_pct prev) (fiscal_deficit_as_gdp_pct cur)"
    using lt by (cases "fiscal_deficit_as_gdp_pct cur"; cases "fiscal_deficit_as_gdp_pct prev") auto
  have "get_deficit_trend t' y =
      classify_deficit (fiscal_deficit_as_gdp_pct prev) (fiscal_deficit_as_gdp_pct cur)"
    using get_deficit_trend_present [OF assms(2) assms(5)] assms(6) assms(7) assms(8) by simp
  then show ?thesis using lt nlt by (simp add: classify_deficit_def num_gt_def)
qed

theorem deficit_trend_antisymmetric_witness:
  "budget_summary demo_tables = Some demo_summary \<and>
   budget_summary demo_tables_swapped = Some demo_summary_swapped \<and>
   filter (\<lambda>r. year r = 2025) demo_summary = [demo_summary ! 1] \<and>
   filter (\<lambda>r. year r = 2025 - 1) demo_summary = [demo_summary ! 0] \<and>
   filter (\<lambda>r. year r = 2025) demo_summary_swapped = [demo_summary_swapped ! 1] \<and>
   filter (\<lambda>r. year r = 2025 - 1) demo_summary_swapped = [demo_summary_swapped ! 0] \<and>
   fiscal_deficit_as_gdp_pct (demo_summary_swapped ! 1)
     = fiscal_deficit_as_gdp_pct (demo_summary ! 0) \<and>
   fiscal_deficit_as_gdp_pct (demo_summary_swapped ! 0)
     = fiscal_deficit_as_gdp_pct (demo_summary ! 1) \<and>
   get_deficit_trend demo_tables 2025 = ''Improving'' \<and>
   get_deficit_trend demo_tables_swapped 2025 = ''Deteriorating''"
proof -
  have h1: "budget_summary demo_tables = Some demo_summary" by (simp add: demo_tables_def)
  have h2: "budget_summary demo_tables_swapped = Some demo_summary_swapped"
    by (simp add: demo_tables_swapped_def)
  have h3: "filter (\<lambda>r. year r = 2025) demo_summary = [demo_summary ! 1]"
    by (simp add: demo_summary_def)
  have h4: "filter (\<lambda>r. year r = 2025 - 1) demo_summary = [demo_summary ! 0]"
    by (simp add: demo_summary_def)
  have h5: "filter (\<lambda>r. year r = 2025) demo_summary_swapped = [demo_summary_swapped ! 1]"
    by (simp add: demo_summary_swapped_def)
  have h6: "filter (\<lambda>r. year r = 2025 - 1) demo_summary_swapped = [demo_summary_swapped ! 0]"
    by (simp add: demo_summary_swapped_def)
  have h7: "fiscal_deficit_as_gdp_pct (demo_summary_swapped ! 1)
     = fiscal_deficit_as_gdp_pct (demo_summary ! 0)"
    by (simp add: demo_summary_def demo_summary_swapped_def)
  have h8: "fiscal_deficit_as_gdp_pct (demo_summary_swapped ! 0)
     = fiscal_deficit_as_gdp_pct (demo_summary ! 1)"
    by (simp add: demo_summary_def demo_summary_swapped_def)
  have h9: "get_deficit_trend demo_tables 2025 = ''Improving''"
    by (simp add: get_deficit_trend_present [OF h1 h3] h4 classify_deficit_def demo_summary_def)
  from deficit_trend_antisymmetric [OF h1 h2 h3 h4 h5 h6 h7 h8 h9] h1 h2 h3 h4 h5 h6 h7 h8 h9
  show ?thesis by simp
qed

section \<open>Multi-year comparison\<close>

lemma summaries_years:
  "map year (concat (map (\<lambda>y. take 1 (filter (\<lambda>r. year r = y) bs)) years))
     = filter (\<lambda>y. y \<in> year ` set bs) years"
proof (induction years)
  case Nil
  then show ?case by simp
next
  case (Cons y years)
  show ?case
  proof (cases "filter (\<lambda>r. year r = y) bs")
    case Nil
    then have "y \<notin> year ` set bs" by (auto simp: filter_empty_conv)
    with Nil Cons show ?thesis by simp
  next
    case (Cons r rs)
    then have "r \<in> set (filter (\<lambda>r. year r = y) bs)" by simp
    then have "year r = y" "y \<in> year ` set bs" by auto
    with Cons Cons.IH show ?thesis by simp
  qed
qed

lemma summaries_first:
  "r \<in> set (concat (map (\<lambda>y. take 1 (filter (\<lambda>r. year r = y) bs)) years))
     \<Longrightarrow> find (\<lambda>r'. year r' = year r) bs = Some r"
proof -
  assume "r \<in> set (concat (map (\<lambda>y. take 1 (filter (\<lambda>r. year r = y) bs)) years))"
  then obtain y where y: "r \<in> set (take 1 (filter (\<lambda>r. year r = y) bs))" by auto
  then obtain rs where f: "filter (\<lambda>r. year r = y) bs = r # rs"
    by (cases "filter (\<lambda>r. year r = y) bs") auto
  then have "year r = y" by (metis (mono_tags, lifting) filter_eq_ConsD)
  with f have "filter (\<lambda>r'. year r' = year r) bs = r # rs" by simp
  then show ?thesis by (induction bs) (auto split: if_splits)
qed

text \<open>
  C6, as the code has it. \<open>get_comparison_data\<close> has no not-found result: with the
  tables loaded it always returns a comparison, whose \<open>budget_summary\<close> holds, in the
  order of the request, the first summary record of each requested year that is present;
  the list is empty when none of the requested years is present. Partial coverage is not
  an error.
\<close>

theorem comparison_partial_coverage:
  assumes "revenue_data t = Some rd" "expenditure_data t = Some ed"
    and "budget_summary t = Some bs"
  shows "\<exists>c. get_comparison_data t years = Inr c \<and>
     map year (c_budget_summary c) = filter (\<lambda>y. y \<in> summary_years t) years \<and>
     (\<forall>r \<in> set (c_budget_summary c). find (\<lambda>r'. year r' = year r) bs = Some r)"
proof -
  let ?s = "concat (map (\<lambda>y. take 1 (filter (\<lambda>r. year r = y) bs)) years)"
  have "\<exists>c. get_comparison_data t years = Inr c \<and> c_budget_summary c = ?s"
    using assms
    by (simp add: get_comparison_data_def comparison_try_def subscript_def attribute_def bind_err_def)
  then obtain c where c: "get_comparison_data t years = Inr c" "c_budget_summary c = ?s"
    by blast
  have sy: "summary_years t = year ` set bs" using assms(3) by (simp add: summary_years_def)
  show ?thesis
    using c summaries_years [of bs years] summaries_first [of _ bs years] sy
    by (intro exI [of _ c]) auto
qed

theorem comparison_partial_coverage_witness:
  "revenue_data demo_tables = Some demo_revenue \<and>
   expenditure_data demo_tables = Some demo_expenditure \<and>
   budget_summary demo_tables = Some demo_summary \<and>
   (\<exists>c. get_comparison_data demo_tables [2025, 1999, 2024] = Inr c \<and>
        map year (c_budget_summary c) = [2025, 2024])"
proof -
  have h1: "revenue_data demo_tables = Some demo_revenue" by (simp add: demo_tables_def)
  have h2: "expenditure_data demo_tables = Some demo_expenditure" by (simp add: demo_tables_def)
  have h3: "budget_summary demo_tables = Some demo_summary" by (simp add: demo_tables_def)
  have y: "filter (\<lambda>y. y \<in> summary_years demo_tables) [2025, 1999, 2024] = [2025, 2024]"
    by (simp add: summary_years_def demo_tables_def demo_summary_def)
  from comparison_partial_coverage [OF h1 h2 h3, of "[2025, 1999, 2024]"]
  obtain c where "get_comparison_data demo_tables [2025, 1999, 2024] = Inr c"
    and "map year (c_budget_summary c) = [2025, 2024]"
    unfolding y by auto
  then have "\<exists>c. get_comparison_data demo_tables [2025, 1999, 2024] = Inr c \<and>
        map year (c_budget_summary c) = [2025, 2024]"
    by (intro exI [of _ c]) simp
  with h1 h2 h3 show ?thesis by simp
qed

text \<open>
  The claim as stated fails: a request for the single year 1999, which has no summary
  record, is answered with a comparison (all of its parts empty), not with an error.
\<close>

theorem comparison_counterexample:
  "get_comparison_data demo_tables [1999] =
     Inr \<lparr>c_years = [1999], c_budget_summary = [], revenue_comparison = [],
          expenditure_comparison = [], ministry_trends = []\<rparr> \<and>
   set [1999] \<inter> summary_years demo_tables = {}"
  by (simp add: get_comparison_data_def comparison_try_def subscript_def attribute_def bind_err_def
      demo_defs compare_rows_def year_series_def summary_years_def notna_def)

section \<open>Revenue trends\<close>

lemma trend_years_iff:
  "(y::int) \<in> set [2017, 2018, 2019, 2020, 2021, 2022, 2023, 2024, 2025]
     \<longleftrightarrow> 2017 \<le> y \<and> y \<le> 2025"
  by (simp only: list.set insert_iff empty_iff) presburger

lemma growth_of_Some:
  "growth_of cv pv = Some g \<longleftrightarrow>
     (\<exists>c p. cv = Num c \<and> pv = Num p \<and> 0 < p \<and> g = Num ((c - p) / p * 100))"
  by (cases cv; cases pv) (auto simp: growth_of_def notna_def num_gt_def)

lemma map_filter_mem: "x \<in> set (List.map_filter f ys) \<longleftrightarrow> (\<exists>y \<in> set ys. f y = Some x)"
  by (induction ys) (auto split: option.splits)

lemma growth_entry_mem:
  "\<lparr>g_year = y, growth_rate = g\<rparr> \<in> set (source_growth_rates rd r) \<longleftrightarrow>
     2017 \<le> y \<and> y \<le> 2025 \<and> y \<in> set (year_cols rd) \<and> y - 1 \<in> set (year_cols rd) \<and>
     (\<exists>c p. row_cell r y = Num c \<and> row_cell r (y - 1) = Num p \<and> 0 < p \<and>
            g = Num ((c - p) / p * 100))"
proof -
  let ?ys = "[2017, 2018, 2019, 2020, 2021, 2022, 2023, 2024, 2025] :: int list"
  let ?F = "\<lambda>y. if y \<in> set (year_cols rd) \<and> y - 1 \<in> set (year_cols rd)
            then map_option (\<lambda>g. \<lparr>g_year = y, growth_rate = g\<rparr>)
                   (growth_of (row_cell r y) (row_cell r (y - 1)))
            else None"
  have one: "?F y' = Some \<lparr>g_year = y, growth_rate = g\<rparr> \<longleftrightarrow>
      y' = y \<and> y \<in> set (year_cols rd) \<and> y - 1 \<in> set (year_cols rd) \<and>
      growth_of (row_cell r y) (row_cell r (y - 1)) = Some g" for y'
    by (cases "growth_of (row_cell r y') (row_cell r (y' - 1))") auto
  have "\<lparr>g_year = y, growth_rate = g\<rparr> \<in> set (source_growth_rates rd r) \<longleftrightarrow>
      (\<exists>y' \<in> set ?ys. ?F y' = Some \<lparr>g_year = y, growth_rate = g\<rparr>)"
    unfolding source_growth_rates_def by (rule map_filter_mem)
  also have "\<dots> \<longleftrightarrow> y \<in> set ?ys \<and> y \<in> set (year_cols rd) \<and> y - 1 \<in> set (year_cols rd) \<and>
      growth_of (row_cell r y) (row_cell r (y - 1)) = Some g"
    unfolding one by blast
  finally show ?thesis
    unfolding trend_years_iff growth_of_Some by blast
qed

lemma map_filter_keys:
  assumes "\<And>y v. f y = Some v \<Longrightarrow> k v = y"
  shows "map k (List.map_filter f ys) = filter (\<lambda>y. f y \<noteq> None) ys"
  using assms by (induction ys) (auto split: option.splits)

lemma growth_years_distinct: "distinct (map g_year (source_growth_rates rd r))"
proof -
  have "map g_year (source_growth_rates rd r) =
      filter (\<lambda>y. (if y \<in> set (year_cols rd) \<and> y - 1 \<in> set (year_cols rd)
            then map_option (\<lambda>g. \<lparr>g_year = y, growth_rate = g\<rparr>)
                   (growth_of (row_cell r y) (row_cell r (y - 1)))
            else None) \<noteq> None) [2017, 2018, 2019, 2020, 2021, 2022, 2023, 2024, 2025]"
    unfolding source_growth_rates_def
    by (rule map_filter_keys) (auto split: if_splits)
  moreover have "distinct ([2017, 2018, 2019, 2020, 2021, 2022, 2023, 2024, 2025] :: int list)"
    by simp
  ultimately show ?thesis by (simp only: distinct_filter)
qed

lemma growth_rates_Num:
  "\<exists>qs. map growth_rate (source_growth_rates rd r) = map Num qs"
proof -
  have "\<forall>g \<in> set (map growth_rate (source_growth_rates rd r)). \<exists>q. g = Num q"
  proof
    fix g assume "g \<in> set (map growth_rate (source_growth_rates rd r))"
    then obtain e where e: "e \<in> set (source_growth_rates rd r)" "g = growth_rate e" by auto
    have "e = \<lparr>g_year = g_year e, growth_rate = g\<rparr>" using e(2) by simp
    with e(1) have "\<lparr>g_year = g_year e, growth_rate = g\<rparr> \<in> set (source_growth_rates rd r)"
      by simp
    then show "\<exists>q. g = Num q" unfolding growth_entry_mem by blast
  qed
  then show ?thesis by (simp add: ex_map_conv)
qed

lemma np_mean_Num:
  "qs \<noteq> [] \<Longrightarrow> np_mean (map Num qs) = Num (sum_list qs / of_nat (length qs))"
  by (simp add: np_mean_def py_sum_Num)


lemma map_of_map_filter_names:
  assumes "\<And>s v. f s = Some v \<Longrightarrow> fst v = s"
  shows "map_of (List.map_filter f names) s =
           (if s \<in> set names then map_option snd (f s) else None)"
  using assms
proof (induction names)
  case Nil
  then show ?case by simp
next
  case (Cons n names)
  show ?case
  proof (cases "f n")
    case None
    with Cons show ?thesis by auto
  next
    case (Some v)
    then have "fst v = n" by (rule Cons.prems)
    with Some Cons show ?thesis by (cases v) auto
  qed
qed

text \<open>
  C8, as the code has it. With the revenue table loaded, each tracked source that has a
  row gets an entry (read from its first row) whose growth rates are exactly those of the
  years \<open>y\<close> from 2017 to 2025 for which the columns of \<open>y\<close> and \<open>y - 1\<close> exist,
  both values are defined and the value of \<open>y - 1\<close> is strictly positive (the value of
  \<open>y\<close> itself may be zero or negative); the rate is \<open>(cur - prev) / prev * 100\<close>, there
  is one rate per year at most, and the average growth is the arithmetic mean of the
  rates, 0 when there is none. A tracked source without a row gets no entry.
\<close>

theorem revenue_trend_entries:
  assumes "revenue_data t = Some rd" and "s \<in> set major_sources"
  shows "\<exists>trends. analyze_revenue_trends t = Inr trends \<and>
     (case filter (\<lambda>r. row_name r = s) (table_rows rd) of
        [] \<Rightarrow> map_of trends s = None
      | r # _ \<Rightarrow>
          (\<exists>tr. map_of trends s = Some tr \<and>
             (\<forall>y g. \<lparr>g_year = y, growth_rate = g\<rparr> \<in> set (growth_rates tr) \<longleftrightarrow>
                2017 \<le> y \<and> y \<le> 2025 \<and>
                y \<in> set (year_cols rd) \<and> y - 1 \<in> set (year_cols rd) \<and>
                (\<exists>c p. row_cell r y = Num c \<and> row_cell r (y - 1) = Num p \<and> 0 < p \<and>
                       g = Num ((c - p) / p * 100))) \<and>
             distinct (map g_year (growth_rates tr)) \<and>
             (\<exists>qs. map growth_rate (growth_rates tr) = map Num qs \<and>
                   avg_growth tr = Num (if qs = [] then 0
                                        else sum_list qs / of_nat (length qs)))))"
proof -
  let ?f = "\<lambda>s. case filter (\<lambda>r. row_name r = s) (table_rows rd) of
                     [] \<Rightarrow> None
                   | source_data # _ \<Rightarrow>
                       (let g = source_growth_rates rd source_data
                        in Some (s, \<lparr>growth_rates = g,
                                     avg_growth = (if g = [] then Num 0
                                                   else np_mean (map growth_rate g))\<rparr>))"
  let ?trends = "List.map_filter ?f major_sources"
  have run: "analyze_revenue_trends t = Inr ?trends"
    using assms(1) by (simp add: analyze_revenue_trends_def subscript_def)
  have key: "\<And>s v. ?f s = Some v \<Longrightarrow> fst v = s"
    by (auto simp: Let_def split: list.splits)
  have look: "map_of ?trends s = map_option snd (?f s)"
    using map_of_map_filter_names [of ?f major_sources s, OF key] assms(2) by simp
  show ?thesis
  proof (cases "filter (\<lambda>r. row_name r = s) (table_rows rd)")
    case Nil
    then show ?thesis using run look by simp
  next
    case (Cons r rest)
    let ?g = "source_growth_rates rd r"
    let ?tr = "\<lparr>growth_rates = ?g,
                avg_growth = (if ?g = [] then Num 0 else np_mean (map growth_rate ?g))\<rparr>"
    have l: "map_of ?trends s = Some ?tr" using look Cons by (simp add: Let_def)
    obtain qs where qs: "map growth_rate ?g = map Num qs" using growth_rates_Num by blast
    have e: "?g = [] \<longleftrightarrow> qs = []" using qs by (metis map_is_Nil_conv)
    have avg: "avg_growth ?tr = Num (if qs = [] then 0 else sum_list qs / of_nat (length qs))"
      using e qs by (simp add: np_mean_Num)
    have "\<exists>tr. map_of ?trends s = Some tr \<and>
             (\<forall>y g. \<lparr>g_year = y, growth_rate = g\<rparr> \<in> set (growth_rates tr) \<longleftrightarrow>
                2017 \<le> y \<and> y \<le> 2025 \<and>
                y \<in> set (year_cols rd) \<and> y - 1 \<in> set (year_cols rd) \<and>
                (\<exists>c p. row_cell r y = Num c \<and> row_cell r (y - 1) = Num p \<and> 0 < p \<and>
                       g = Num ((c - p) / p * 100))) \<and>
             distinct (map g_year (growth_rates tr)) \<and>
             (\<exists>qs. map growth_rate (growth_rates tr) = map Num qs \<and>
                   avg_growth tr = Num (if qs = [] then 0
                                        else sum_list qs / of_nat (length qs)))"
      apply (rule exI [of _ ?tr])
      apply (intro conjI)
         apply (rule l)
        apply (simp add: growth_entry_mem)
       apply (simp add: growth_years_distinct)
      apply (rule exI [of _ qs])
      using qs avg apply simp
      done
    then show ?thesis using run Cons by simp
  qed
qed

theorem revenue_trend_entries_witness:
  "revenue_data trend_tables = Some trend_revenue \<and>
   ''Goods and Services Tax (GST)'' \<in> set major_sources \<and>
   (\<exists>trends tr. analyze_revenue_trends trend_tables = Inr trends \<and>
      map_of trends ''Goods and Services Tax (GST)'' = Some tr \<and>
      \<lparr>g_year = 2018, growth_rate = Num 50\<rparr> \<in> set (growth_rates tr) \<and>
      distinct (map g_year (growth_rates tr)))"
proof -
  have h1: "revenue_data trend_tables = Some trend_revenue"
    by (simp add: trend_tables_def)
  have h2: "''Goods and Services Tax (GST)'' \<in> set major_sources"
    by (simp add: major_sources_def)
  have f: "filter (\<lambda>r. row_name r = ''Goods and Services Tax (GST)'') (table_rows trend_revenue)
      = [gst_row]"
    by (simp add: trend_revenue_def gst_row_def)
  from revenue_trend_entries [OF h1 h2] obtain trends tr where
    a: "analyze_revenue_trends trend_tables = Inr trends"
    and b: "map_of trends ''Goods and Services Tax (GST)'' = Some tr"
    and c: "\<forall>y g. \<lparr>g_year = y, growth_rate = g\<rparr> \<in> set (growth_rates tr) \<longleftrightarrow>
                2017 \<le> y \<and> y \<le> 2025 \<and>
                y \<in> set (year_cols trend_revenue) \<and> y - 1 \<in> set (year_cols trend_revenue) \<and>
                (\<exists>c p. row_cell gst_row y = Num c \<and> row_cell gst_row (y - 1) = Num p \<and> 0 < p \<and>
                       g = Num ((c - p) / p * 100))"
    and d: "distinct (map g_year (growth_rates tr))"
    unfolding f by auto
  have "\<lparr>g_year = 2018, growth_rate = Num 50\<rparr> \<in> set (growth_rates tr)"
    by (subst c) (simp add: trend_revenue_def gst_row_def)
  with h1 h2 a b d show ?thesis by blast
qed


text \<open>
  The claim as stated fails: the GST amount of 2019 is 0, not strictly positive, and the
  pair (2018, 2019) still gets a growth rate, -100.
\<close>

theorem revenue_trend_counterexample:
  "analyze_revenue_trends trend_tables =
     Inr [(''Goods and Services Tax (GST)'',
           \<lparr>growth_rates = [\<lparr>g_year = 2018, growth_rate = Num 50\<rparr>,
                            \<lparr>g_year = 2019, growth_rate = Num (- 100)\<rparr>],
            avg_growth = Num (- 25)\<rparr>)] \<and>
   row_cell gst_row 2019 = Num 0 \<and> row_cell gst_row 2018 = Num 150"
  by (simp add: analyze_revenue_trends_def trend_tables_def no_tables_def subscript_def
      trend_revenue_def gst_row_def major_sources_def source_growth_rates_def growth_of_def
      notna_def num_gt_def np_mean_def py_sum_def)


section \<open>Conversation history\<close>

lemma get_response_success_bounded:
  "length (snd (get_response h q (Inr p) (Response txt))) \<le> 20"
  by (simp add: get_response_def Let_def last_n_def)

lemma get_response_failure_grows:
  "snd (get_response h q (Inr p) Raises) = h @ [\<lparr>role = ''user'', content = q\<rparr>]"
  by (simp add: get_response_def Let_def)

text \<open>
  C9. The cap of 20 entries is applied at the end of a successful call only. A call on
  which the completion service raises leaves through the \<open>except\<close> clause after the
  user's message was appended and before the history is cut: after ten answered
  questions and one failed call the history has 21 entries.
\<close>

theorem history_exceeds_cap_after_failure:
  "length (run_session [] ten_exchanges_then_failure) = 21"
  unfolding ten_exchanges_then_failure_def
  by (simp add: eval_nat_numeral get_response_def Let_def last_n_def)


section \<open>Ministry detail\<close>

lemma ci_prefix_iff:
  "ci_prefix p s \<longleftrightarrow> (\<exists>post. map lower_char s = map lower_char p @ post)"
  by (induction p s rule: ci_prefix.induct) auto

lemma ci_substring_iff:
  "ci_substring p s \<longleftrightarrow> (\<exists>pre post. map lower_char s = pre @ map lower_char p @ post)"
proof (induction s)
  case Nil
  then show ?case by auto
next
  case (Cons c cs)
  show ?case
  proof
    assume "ci_substring p (c # cs)"
    then consider "ci_prefix p (c # cs)" | "ci_substring p cs" by auto
    then show "\<exists>pre post. map lower_char (c # cs) = pre @ map lower_char p @ post"
    proof cases
      case 1
      then obtain post where "map lower_char (c # cs) = map lower_char p @ post"
        unfolding ci_prefix_iff by blast
      then have "map lower_char (c # cs) = [] @ map lower_char p @ post" by simp
      then show ?thesis by blast
    next
      case 2
      then obtain pre post where "map lower_char cs = pre @ map lower_char p @ post"
        using Cons.IH by blast
      then have "map lower_char (c # cs) = (lower_char c # pre) @ map lower_char p @ post"
        by simp
      then show ?thesis by blast
    qed
  next
    assume "\<exists>pre post. map lower_char (c # cs) = pre @ map lower_char p @ post"
    then obtain pre post where e: "map lower_char (c # cs) = pre @ map lower_char p @ post"
      by blast
    show "ci_substring p (c # cs)"
    proof (cases pre)
      case Nil
      with e have "ci_prefix p (c # cs)" unfolding ci_prefix_iff by auto
      then show ?thesis by simp
    next
      case (Cons a pre')
      with e have "map lower_char cs = pre' @ map lower_char p @ post" by simp
      then have "ci_substring p cs" using Cons.IH by blast
      then show ?thesis by simp
    qed
  qed
qed

lemma match_here_plain: "plain_pattern p \<Longrightarrow> match_here p s = ci_prefix p s"
  by (induction p s rule: ci_prefix.induct)
     (auto simp: plain_pattern_def item_match_def regex_specials_def)

lemma re_search_plain: "plain_pattern p \<Longrightarrow> re_search p s = ci_substring p s"
  by (induction s) (auto simp: match_here_plain)

lemma scan_groups_plain: "plain_pattern p \<Longrightarrow> scan_groups inside p = (if inside then Unbalanced else Flat)"
  by (induction p arbitrary: inside) (auto simp: plain_pattern_def regex_specials_def)

lemma filter_parentheses_plain:
  "plain_pattern p \<Longrightarrow> filter (\<lambda>c. c \<noteq> CHR ''('' \<and> c \<noteq> CHR '')'') p = p"
  by (induction p) (auto simp: plain_pattern_def regex_specials_def)

lemma in_fragment_plain: "plain_pattern p \<Longrightarrow> in_fragment p"
  by (auto simp: in_fragment_def plain_pattern_def scan_groups_plain list_all_iff)

lemma regex_library_plain: "plain_pattern p \<Longrightarrow> regex_library rest p = Inr (ci_substring p)"
  by (simp add: regex_library_def in_fragment_plain scan_groups_plain filter_parentheses_plain
      re_search_plain fun_eq_iff)

text \<open>
  Where the code does what the specification says: a pattern without special
  characters, on a year that is a column of the loaded expenditure table, selects the
  first row whose name contains the pattern up to case and whose amount for the year is
  defined, and gives the not-found error when there is no such row.
\<close>

lemma ministry_details_plain_pattern:
  assumes "expenditure_data t = Some ed" and "detailed_expenditures t = Some de"
    and "y \<in> set (year_cols ed)" and "plain_pattern p"
  shows "case filter (\<lambda>r. ci_substring p (row_name r) \<and> row_cell r y \<noteq> NaN) (table_rows ed) of
           [] \<Rightarrow> get_ministry_details (regex_library rest) t y p = Inl (NoDataForMinistry p y)
         | m # _ \<Rightarrow>
             (\<exists>d. get_ministry_details (regex_library rest) t y p = Inr d \<and>
                  md_ministry_name d = row_name m \<and>
                  current_allocation d = row_cell m y)"
  using assms(1-3) regex_library_plain [OF assms(4), of rest]
  by (simp add: get_ministry_details_def ministry_details_try_def subscript_def
      notna_def Let_def split: list.splits)

lemma ayush_pattern:
  "regex_library rest ''Ministry of Ayush (AYUSH)'' = Inr (re_search ''Ministry of Ayush AYUSH'')"
  by (simp add: regex_library_def in_fragment_def regex_specials_def)

text \<open>
  C7. The code does not match the pattern as a substring: it hands it to
  \<open>str.contains\<close> as a regular expression. The application passes a ministry name
  chosen from the table. For the name \<open>Ministry of Ayush (AYUSH)\<close>, which is a row of
  the table with a defined amount for 2025 and contains itself as a substring, the
  parentheses form a group, the expression looks for \<open>Ministry of Ayush AYUSH\<close>, no
  row matches, and the result is the not-found error instead of the ministry's details.
\<close>

theorem ministry_name_with_parentheses:
  "get_ministry_details (regex_library rest) ayush_tables 2025 ''Ministry of Ayush (AYUSH)''
     = Inl (NoDataForMinistry ''Ministry of Ayush (AYUSH)'' 2025) \<and>
   expenditure_data ayush_tables = Some ayush_expenditure \<and>
   table_rows ayush_expenditure = [finance_row, ayush_row] \<and>
   row_name ayush_row = ''Ministry of Ayush (AYUSH)'' \<and>
   row_cell ayush_row 2025 = Num 3000 \<and>
   ci_substring ''Ministry of Ayush (AYUSH)'' (row_name ayush_row)"
proof -
  have m1: "\<not> re_search ''Ministry of Ayush AYUSH'' ''Ministry of Finance''" by code_simp
  have m2: "\<not> re_search ''Ministry of Ayush AYUSH'' ''Ministry of Ayush (AYUSH)''" by code_simp
  have s1: "ci_substring ''Ministry of Ayush (AYUSH)'' ''Ministry of Ayush (AYUSH)''" by code_simp
  have r: "get_ministry_details (regex_library rest) ayush_tables 2025 ''Ministry of Ayush (AYUSH)''
     = Inl (NoDataForMinistry ''Ministry of Ayush (AYUSH)'' 2025)"
    using m1 m2
    by (simp add: get_ministry_details_def ministry_details_try_def subscript_def ayush_pattern
        ayush_tables_def ayush_expenditure_def ayush_row_def finance_row_def demo_tables_def
        del: re_search.simps)
  show ?thesis
    using r s1
    by (simp add: ayush_tables_def ayush_expenditure_def ayush_row_def del: ci_substring.simps)
qed

section \<open>Insights report\<close>

lemma insights_try_Inr:
  "insights_try t = Inr ins \<longleftrightarrow>
     analyze_revenue_trends t = Inr (revenue_trends ins) \<and>
     analyze_expenditure_patterns t = Inr (expenditure_patterns ins) \<and>
     analyze_fiscal_trends t = Inr (fiscal_analysis ins) \<and>
     analyze_ministry_performance t = Inr (ministry_performance ins) \<and>
     generate_key_findings t = Inr (key_findings ins)"
  by (cases ins) (auto simp: insights_try_def bind_err_def split: sum.splits)

lemma insights_try_Inl:
  "(\<exists>e. insights_try t = Inl e) \<longleftrightarrow>
     (\<exists>e. analyze_revenue_trends t = Inl e) \<or>
     (\<exists>e. analyze_expenditure_patterns t = Inl e) \<or>
     (\<exists>e. analyze_fiscal_trends t = Inl e) \<or>
     (\<exists>e. analyze_ministry_performance t = Inl e) \<or>
     (\<exists>e. generate_key_findings t = Inl e)"
  by (auto simp: insights_try_def bind_err_def split: sum.splits)

text \<open>
  C1, as the code has it. \<open>get_insights_data\<close> does not isolate the sub-reports: it
  returns a report exactly when all five computations (revenue trends, expenditure
  patterns, fiscal analysis, ministry performance, key findings) return, and the report
  then holds their five results; when any one of them raises, the result is the single
  error \<open>Error generating insights\<close>, with no sub-report at all.
\<close>

theorem insights_all_or_nothing:
  "(get_insights_data t = Inr ins \<longleftrightarrow>
      analyze_revenue_trends t = Inr (revenue_trends ins) \<and>
      analyze_expenditure_patterns t = Inr (expenditure_patterns ins) \<and>
      analyze_fiscal_trends t = Inr (fiscal_analysis ins) \<and>
      analyze_ministry_performance t = Inr (ministry_performance ins) \<and>
      generate_key_findings t = Inr (key_findings ins)) \<and>
   ((\<exists>e. analyze_revenue_trends t = Inl e) \<or>
    (\<exists>e. analyze_expenditure_patterns t = Inl e) \<or>
    (\<exists>e. analyze_fiscal_trends t = Inl e) \<or>
    (\<exists>e. analyze_ministry_performance t = Inl e) \<or>
    (\<exists>e. generate_key_findings t = Inl e)
    \<longrightarrow> (\<exists>e. get_insights_data t = Inl (ErrorGeneratingInsights e)))"
proof -
  have a: "get_insights_data t = Inr ins \<longleftrightarrow> insights_try t = Inr ins"
    by (simp add: get_insights_data_def split: sum.splits)
  have b: "(\<exists>e. get_insights_data t = Inl (ErrorGeneratingInsights e))
      \<longleftrightarrow> (\<exists>e. insights_try t = Inl e)"
    by (simp add: get_insights_data_def split: sum.splits)
  show ?thesis unfolding a b insights_try_Inr insights_try_Inl by blast
qed

theorem insights_all_or_nothing_witness:
  "analyze_fiscal_trends summary_missing_tables = Inl AttributeError \<and>
   (\<exists>e. get_insights_data summary_missing_tables = Inl (ErrorGeneratingInsights e)) \<and>
   generate_key_findings demo_tables
     = Inr [DefenceGrowth (Num 50), DeficitProjected (Num (9 / 2)), LargestSpender] \<and>
   (\<exists>ins. get_insights_data demo_tables = Inr ins \<and>
      key_findings ins = [DefenceGrowth (Num 50), DeficitProjected (Num (9 / 2)), LargestSpender])"
proof -
  have f: "analyze_fiscal_trends summary_missing_tables = Inl AttributeError"
    by (simp add: analyze_fiscal_trends_def summary_missing_tables_def attribute_def)
  then have "\<exists>e. analyze_fiscal_trends summary_missing_tables = Inl e" by blast
  with insights_all_or_nothing [of summary_missing_tables]
  have g: "\<exists>e. get_insights_data summary_missing_tables = Inl (ErrorGeneratingInsights e)"
    by blast
  have k: "generate_key_findings demo_tables
     = Inr [DefenceGrowth (Num 50), DeficitProjected (Num (9 / 2)), LargestSpender]"
    by code_simp
  obtain rt where rt: "analyze_revenue_trends demo_tables = Inr rt"
    by (simp add: analyze_revenue_trends_def demo_tables_def subscript_def)
  obtain ep where ep: "analyze_expenditure_patterns demo_tables = Inr ep"
    by (simp add: analyze_expenditure_patterns_def demo_tables_def attribute_def Let_def)
  obtain fa where fa: "analyze_fiscal_trends demo_tables = Inr fa"
    by (simp add: analyze_fiscal_trends_def demo_tables_def attribute_def Let_def)
  obtain mp where mp: "analyze_ministry_performance demo_tables = Inr mp"
    by (simp add: analyze_ministry_performance_def demo_tables_def attribute_def Let_def)
  let ?ins = "\<lparr>revenue_trends = rt, expenditure_patterns = ep, fiscal_analysis = fa,
      ministry_performance = mp,
      key_findings = [DefenceGrowth (Num 50), DeficitProjected (Num (9 / 2)), LargestSpender]\<rparr>"
  have "get_insights_data demo_tables = Inr ?ins"
    using insights_all_or_nothing [of demo_tables ?ins] rt ep fa mp k by simp
  then have h: "\<exists>ins. get_insights_data demo_tables = Inr ins \<and>
      key_findings ins = [DefenceGrowth (Num 50), DeficitProjected (Num (9 / 2)), LargestSpender]"
    by (intro exI [of _ ?ins]) simp
  from f g k h show ?thesis by blast
qed

text \<open>
  The claim as stated fails: with the summary table not loaded the fiscal analysis
  raises; the revenue trends are computable, and the report is the error alone.
\<close>

theorem insights_counterexample:
  "analyze_revenue_trends summary_missing_tables =
     Inr [(''Goods and Services Tax (GST)'',
           \<lparr>growth_rates = [\<lparr>g_year = 2018, growth_rate = Num 50\<rparr>,
                            \<lparr>g_year = 2019, growth_rate = Num (- 100)\<rparr>],
            avg_growth = Num (- 25)\<rparr>)] \<and>
   analyze_fiscal_trends summary_missing_tables = Inl AttributeError \<and>
   get_insights_data summary_missing_tables = Inl (ErrorGeneratingInsights AttributeError)"
  by code_simp



end
